theory Spec2Isabelle
  imports Complex_Main
begin

unbundle bit_operations_syntax

section \<open>Python values, exceptions and library functions\<close>

text \<open>
  Python integers are unbounded and are modelled as \<open>int\<close>. A Python float is a double,
  that is a rational number, and is modelled as the \<open>rat\<close> it is. Wall-clock times and
  time-outs are added and compared exactly. Where the supervisors multiply and divide,
  the result is the exact result rounded to a double, and the rounding is a parameter
  \<open>rnd\<close> of the model (see \<open>py_mul\<close> and \<open>truediv\<close>).

  Every exception the modelled code can raise is a value of \<open>failure\<close>. A method of an
  object returns its outcome together with the object as the method left it, because a
  Python exception does not undo the assignments made before it was raised.
\<close>

datatype message =
    CommandAlreadyInProgress
      \<comment> \<open>"OS command request was received when another one was already in progress."\<close>
  | ErrorCode int string
      \<comment> \<open>"OS command returned an error (OS error code {}: {})."\<close>
  | UnknownErrorCode int
      \<comment> \<open>"OS command returned an error, but the OS error code is unknown ({})."\<close>
  | NoErrorCode
      \<comment> \<open>"OS command returned an error (no OS error code)."\<close>
  | NotValidStatus int int
      \<comment> \<open>"Not valid status for OS command {}: {}."\<close>
  | StatusInProgress rat
      \<comment> \<open>"OS command status was in progress for {} seconds."\<close>
  | TrajectoryNotStarted
      \<comment> \<open>"In order to check if the target is reached, a trajectory has to be started."\<close>
  | NoFunctionSelected
      \<comment> \<open>"No function was selected."\<close>
  | NoSensorConfigured
      \<comment> \<open>"No sensor is configured for ..."\<close>

datatype failure =
    Failed message                 \<comment> \<open>raised by \<open>pytest.fail\<close>\<close>
  | OsCommandException message
  | ExceptionSensorConfig message
  | IndexError
  | ValueError
  | TypeError
  | ZeroDivisionError

text \<open>\<open>bytes(command)\<close> accepts a list exactly when every element is in \<open>range(0, 256)\<close>.\<close>

definition is_byte :: "int \<Rightarrow> bool" where
  "is_byte b = (0 \<le> b \<and> b < 256)"

definition bytes_ok :: "int list \<Rightarrow> bool" where
  "bytes_ok command = list_all is_byte command"

text \<open>\<open>xs[i]\<close> for a non-negative literal index: \<open>IndexError\<close> out of range.\<close>

definition item :: "int list \<Rightarrow> nat \<Rightarrow> failure + int" where
  "item xs i = (if i < length xs then Inr (xs ! i) else Inl IndexError)"

section \<open>OS command channel (oscmd_helpers.py)\<close>

datatype OsCmdModes = EXECUTE_NEXT_CMD | ABORT_ALL_CMD

definition COMPLETED_NOERROR_NOREPLY :: int where "COMPLETED_NOERROR_NOREPLY = 0"
definition COMPLETED_NOERROR_WITHREPLY :: int where "COMPLETED_NOERROR_WITHREPLY = 1"
definition COMPLETED_WITHERROR_NOREPLY :: int where "COMPLETED_WITHERROR_NOREPLY = 2"
definition COMPLETED_WITHERROR_WITHREPLY :: int where "COMPLETED_WITHERROR_WITHREPLY = 3"
definition IN_PROCESS_0 :: int where "IN_PROCESS_0 = 100"
definition IN_PROCESS_100 :: int where "IN_PROCESS_100 = 200"
definition CMD_IN_PROGRESS :: int where "CMD_IN_PROGRESS = 255"

lemmas OsCmdStatus_defs =
  COMPLETED_NOERROR_NOREPLY_def COMPLETED_NOERROR_WITHREPLY_def
  COMPLETED_WITHERROR_NOREPLY_def COMPLETED_WITHERROR_WITHREPLY_def
  IN_PROCESS_0_def IN_PROCESS_100_def CMD_IN_PROGRESS_def

text \<open>
  \<open>OsCmdHandler\<close>. The object dictionary \<open>od\<close> is an external collaborator: the handler
  record logs what was written through \<open>od.os_command_command\<close> (oldest first) and
  counts the reads of \<open>od.os_command_response\<close>; the device is a function giving the
  response to the \<open>n\<close>-th read.
\<close>

record OsCmdHandler =
  current_command :: "int list option"
  current_mode :: OsCmdModes
  od_command_writes :: "int list list"
  od_response_reads :: nat

type_synonym device = "nat \<Rightarrow> int list"

definition status_in_progress :: "int list" where
  "status_in_progress = CMD_IN_PROGRESS # [IN_PROCESS_0 .. IN_PROCESS_100]"

definition OsCmdHandler_init :: OsCmdHandler where
  "OsCmdHandler_init =
     \<lparr>current_command = None, current_mode = EXECUTE_NEXT_CMD,
      od_command_writes = [], od_response_reads = 0\<rparr>"

definition execute_command :: "int list \<Rightarrow> OsCmdHandler \<Rightarrow> (failure + unit) \<times> OsCmdHandler" where
  "execute_command command h =
     (if current_command h \<noteq> None then (Inl (Failed CommandAlreadyInProgress), h)
      else
        let h1 = h\<lparr>current_command := Some command\<rparr> in
        if bytes_ok command
        then (Inr (), h1\<lparr>od_command_writes := od_command_writes h1 @ [command]\<rparr>)
        else (Inl ValueError, h1))"

definition get_response :: "device \<Rightarrow> OsCmdHandler \<Rightarrow> (failure + int list) \<times> OsCmdHandler" where
  "get_response dev h =
     (let response = dev (od_response_reads h);
          h1 = h\<lparr>od_response_reads := Suc (od_response_reads h)\<rparr>
      in case item response 0 of
           Inl e \<Rightarrow> (Inl e, h1)
         | Inr status \<Rightarrow>
             if status \<notin> set status_in_progress
             then (Inr response, h1\<lparr>current_command := None\<rparr>)
             else (Inr response, h1))"

definition get_active_command :: "OsCmdHandler \<Rightarrow> int list option" where
  "get_active_command h = current_command h"

section \<open>Command adapters (oscmd_helpers.py)\<close>

text \<open>
  Every adapter class owns an \<open>OsCmdHandler\<close> and a time-out and has one polling method
  (\<open>check_response\<close>; \<open>get_response\<close> in \<open>OpenLoopFieldModeHandler\<close>). The eleven methods
  are the same loop and differ in the status that counts as success, the decoding of
  the reply, the error-code enumerations consulted, whether the
  \<open>COMPLETED_WITHERROR_NOREPLY\<close> branch is present, the command number put into the
  "not valid status" message, and the exception raised on time-out. The model has one
  loop and one function per point of difference, with one equation per adapter.

  The comparisons \<open>response[0] is X.value\<close> are identity tests on the integers 0 to 3,
  which CPython keeps as singletons, so on integer status bytes they decide equality.
\<close>

datatype adapter =
    EncoderRegisterCommunication
  | IcmuCalibrationMode
  | HrdStreaming
  | PhaseOrderDetection
  | CommutationOffsetMeasurement
  | OpenLoopFieldMode
  | OpenPhaseDetection
  | PolePairDetection
  | PhaseResistanceMeasurement
  | PhaseInductanceMeasurement
  | TorqueConstantMeasurement

datatype reply = ReplyInt int | ReplyTrue

datatype outcome = Return reply | Raise failure | Pass

definition OsCmdErrorCodes :: "(int \<times> string) list" where
  "OsCmdErrorCodes =
     [(251, ''CMD_NOT_ALLOWED''), (252, ''CMD_ABORTED''), (253, ''CMD_TIMEOUT''),
      (254, ''UNSUPPORTED_CMD''), (255, ''RESERVED_FOR_EXTENSION'')]"

definition OsCmd3ErrorCodes :: "(int \<times> string) list" where
  "OsCmd3ErrorCodes =
     [(0, ''INITIALIZATION_ERROR''), (1, ''STREAMING_ERROR''), (2, ''DURATION_VALUE_ERROR''),
      (3, ''DATA_INDEX_VALUE_ERROR'')]"

definition OsCmd6ErrorCodes :: "(int \<times> string) list" where
  "OsCmd6ErrorCodes =
     [(0, ''OPEN_TERMINAL_A''), (1, ''OPEN_TERMINAL_B''), (2, ''OPEN_TERMINAL_C''),
      (3, ''OPEN_FET_A_HIGH''), (4, ''OPEN_FET_A_LOW''), (5, ''OPEN_FET_B_HIGH''),
      (6, ''OPEN_FET_B_LOW''), (7, ''OPEN_FET_C_HIGH''), (8, ''OPEN_FET_C_LOW'')]"

text \<open>
  \<open>Enum(v).name\<close>; the code evaluates it only after the membership test
  \<open>v in [item.value for item in Enum]\<close> has succeeded.
\<close>

definition enum_name :: "(int \<times> string) list \<Rightarrow> int \<Rightarrow> string" where
  "enum_name enum v = (case map_of enum v of Some n \<Rightarrow> n | None \<Rightarrow> [])"

text \<open>The status in the first test of the \<open>if\<close> chain, on which the method returns.\<close>

fun success_status :: "adapter \<Rightarrow> int" where
  "success_status EncoderRegisterCommunication = COMPLETED_NOERROR_WITHREPLY"
| "success_status IcmuCalibrationMode = COMPLETED_NOERROR_NOREPLY"
| "success_status HrdStreaming = COMPLETED_NOERROR_NOREPLY"
| "success_status PhaseOrderDetection = COMPLETED_NOERROR_WITHREPLY"
| "success_status CommutationOffsetMeasurement = COMPLETED_NOERROR_WITHREPLY"
| "success_status OpenLoopFieldMode = COMPLETED_NOERROR_NOREPLY"
| "success_status OpenPhaseDetection = COMPLETED_NOERROR_NOREPLY"
| "success_status PolePairDetection = COMPLETED_NOERROR_WITHREPLY"
| "success_status PhaseResistanceMeasurement = COMPLETED_NOERROR_WITHREPLY"
| "success_status PhaseInductanceMeasurement = COMPLETED_NOERROR_WITHREPLY"
| "success_status TorqueConstantMeasurement = COMPLETED_NOERROR_WITHREPLY"

text \<open>
  What the method returns on success: \<open>True\<close>, \<open>response[2]\<close>,
  \<open>response[2] << 8 | response[3]\<close>, or
  \<open>response[2] << 24 | response[3] << 16 | response[4] << 8 | response[5]\<close>.
\<close>

definition reply_byte :: "int list \<Rightarrow> failure + reply" where
  "reply_byte response = (case item response 2 of Inl e \<Rightarrow> Inl e | Inr b2 \<Rightarrow> Inr (ReplyInt b2))"

definition reply_16 :: "int list \<Rightarrow> failure + reply" where
  "reply_16 response =
     (case item response 2 of Inl e \<Rightarrow> Inl e | Inr b2 \<Rightarrow>
      case item response 3 of Inl e \<Rightarrow> Inl e | Inr b3 \<Rightarrow>
        Inr (ReplyInt (push_bit 8 b2 OR b3)))"

definition reply_32 :: "int list \<Rightarrow> failure + reply" where
  "reply_32 response =
     (case item response 2 of Inl e \<Rightarrow> Inl e | Inr b2 \<Rightarrow>
      case item response 3 of Inl e \<Rightarrow> Inl e | Inr b3 \<Rightarrow>
      case item response 4 of Inl e \<Rightarrow> Inl e | Inr b4 \<Rightarrow>
      case item response 5 of Inl e \<Rightarrow> Inl e | Inr b5 \<Rightarrow>
        Inr (ReplyInt (push_bit 24 b2 OR push_bit 16 b3 OR push_bit 8 b4 OR b5)))"

fun decode_reply :: "adapter \<Rightarrow> int list \<Rightarrow> failure + reply" where
  "decode_reply EncoderRegisterCommunication response = reply_byte response"
| "decode_reply IcmuCalibrationMode response = Inr ReplyTrue"
| "decode_reply HrdStreaming response = Inr ReplyTrue"
| "decode_reply PhaseOrderDetection response = reply_byte response"
| "decode_reply CommutationOffsetMeasurement response = reply_16 response"
| "decode_reply OpenLoopFieldMode response = Inr ReplyTrue"
| "decode_reply OpenPhaseDetection response = Inr ReplyTrue"
| "decode_reply PolePairDetection response = reply_byte response"
| "decode_reply PhaseResistanceMeasurement response = reply_32 response"
| "decode_reply PhaseInductanceMeasurement response = reply_32 response"
| "decode_reply TorqueConstantMeasurement response = reply_32 response"

text \<open>
  The enumeration consulted after \<open>OsCmdErrorCodes\<close> (HRD streaming and open-phase detection
  only); whether the chain has the \<open>COMPLETED_WITHERROR_NOREPLY\<close> branch (absent in
  \<open>OpenLoopFieldModeHandler.get_response\<close> and \<open>OpenPhaseDetectionHandler.check_response\<close>);
  the command number formatted into the "not valid status" message (the phase-order
  adapter names command 5 and the open-loop field-mode adapter command 6 there); and the
  exception raised when the deadline has passed (\<open>pytest.fail\<close>, but \<open>OsCommandException\<close>
  in \<open>PhaseInductanceMeasurementHandler\<close>).
\<close>

fun specific_error_codes :: "adapter \<Rightarrow> (int \<times> string) list" where
  "specific_error_codes HrdStreaming = OsCmd3ErrorCodes"
| "specific_error_codes OpenPhaseDetection = OsCmd6ErrorCodes"
| "specific_error_codes a = []"

fun handles_error_without_reply :: "adapter \<Rightarrow> bool" where
  "handles_error_without_reply OpenLoopFieldMode = False"
| "handles_error_without_reply OpenPhaseDetection = False"
| "handles_error_without_reply a = True"

fun reported_command :: "adapter \<Rightarrow> int" where
  "reported_command EncoderRegisterCommunication = 0"
| "reported_command IcmuCalibrationMode = 1"
| "reported_command HrdStreaming = 3"
| "reported_command PhaseOrderDetection = 5"
| "reported_command CommutationOffsetMeasurement = 5"
| "reported_command OpenLoopFieldMode = 6"
| "reported_command OpenPhaseDetection = 6"
| "reported_command PolePairDetection = 7"
| "reported_command PhaseResistanceMeasurement = 8"
| "reported_command PhaseInductanceMeasurement = 9"
| "reported_command TorqueConstantMeasurement = 10"

fun timeout_failure :: "adapter \<Rightarrow> rat \<Rightarrow> failure" where
  "timeout_failure PhaseInductanceMeasurement t = OsCommandException (StatusInProgress t)"
| "timeout_failure a t = Failed (StatusInProgress t)"

definition error_with_reply :: "adapter \<Rightarrow> int list \<Rightarrow> failure" where
  "error_with_reply a response =
     (case item response 2 of
        Inl e \<Rightarrow> e
      | Inr code \<Rightarrow>
          if code \<in> set (map fst OsCmdErrorCodes)
          then OsCommandException (ErrorCode code (enum_name OsCmdErrorCodes code))
          else if code \<in> set (map fst (specific_error_codes a))
          then OsCommandException (ErrorCode code (enum_name (specific_error_codes a) code))
          else Failed (UnknownErrorCode code))"

definition handle_response :: "adapter \<Rightarrow> int list \<Rightarrow> int \<Rightarrow> outcome" where
  "handle_response a response status =
     (if status = success_status a
      then (case decode_reply a response of Inl e \<Rightarrow> Raise e | Inr v \<Rightarrow> Return v)
      else if status = COMPLETED_WITHERROR_WITHREPLY
      then Raise (error_with_reply a response)
      else if handles_error_without_reply a \<and> status = COMPLETED_WITHERROR_NOREPLY
      then Raise (OsCommandException NoErrorCode)
      else if status \<in> set status_in_progress
      then Pass
      else Raise (Failed (NotValidStatus (reported_command a) status)))"

text \<open>
  One iteration of \<open>while True\<close>: poll, sleep 10 ms, the \<open>if\<close> chain, then the deadline test.
  The clock advances by the sleep only. The result is either the outcome of the method
  or the state with which the next iteration starts. \<open>t\<close> is \<open>self.timeout\<close>, which the
  time-out message reports.
\<close>

definition check_response_iteration ::
  "adapter \<Rightarrow> device \<Rightarrow> rat \<Rightarrow> rat \<Rightarrow> OsCmdHandler \<Rightarrow> rat
     \<Rightarrow> ((failure + reply) \<times> OsCmdHandler \<times> rat) + (OsCmdHandler \<times> rat)" where
  "check_response_iteration a dev t deadline h clock =
     (case get_response dev h of
        (Inl e, h1) \<Rightarrow> Inl (Inl e, h1, clock)
      | (Inr response, h1) \<Rightarrow>
          let clock1 = clock + 1 / 100 in
          (case handle_response a response (response ! 0) of
             Return v \<Rightarrow> Inl (Inr v, h1, clock1)
           | Raise e \<Rightarrow> Inl (Inl e, h1, clock1)
           | Pass \<Rightarrow>
               if clock1 > deadline
               then Inl (Inl (timeout_failure a t), h1, clock1)
               else Inr (h1, clock1)))"

function check_response_loop ::
  "adapter \<Rightarrow> device \<Rightarrow> rat \<Rightarrow> rat \<Rightarrow> OsCmdHandler \<Rightarrow> rat
     \<Rightarrow> (failure + reply) \<times> OsCmdHandler \<times> rat" where
  "check_response_loop a dev t deadline h clock =
     (case check_response_iteration a dev t deadline h clock of
        Inl finished \<Rightarrow> finished
      | Inr (h1, clock1) \<Rightarrow> check_response_loop a dev t deadline h1 clock1)"
  by pat_completeness auto
termination
proof (relation "measure (\<lambda>(a, dev, t, deadline, h, clock). nat \<lceil>(deadline - clock) * 100\<rceil>)")
  show "wf (measure (\<lambda>(a, dev, t, deadline, h, clock). nat \<lceil>(deadline - clock) * 100\<rceil>))"
    by simp
next
  fix a :: adapter and dev :: device and t deadline clock :: rat and h :: OsCmdHandler
    and x2 :: "OsCmdHandler \<times> rat" and h1 clock1
  assume it: "check_response_iteration a dev t deadline h clock = Inr x2"
    and x2: "(h1, clock1) = x2"
  from it x2 have c1: "clock1 = clock + 1 / 100" and le: "clock1 \<le> deadline"
    by (auto simp: check_response_iteration_def Let_def
             split: prod.splits sum.splits outcome.splits if_splits)
  from le c1 have "1 \<le> (deadline - clock) * 100" by simp
  then have "1 \<le> \<lceil>(deadline - clock) * 100\<rceil>" by linarith
  moreover from c1 have "(deadline - clock1) * 100 = (deadline - clock) * 100 - 1" by simp
  then have "\<lceil>(deadline - clock1) * 100\<rceil> = \<lceil>(deadline - clock) * 100 - 1\<rceil>"
    by (simp only:)
  then have "\<lceil>(deadline - clock1) * 100\<rceil> = \<lceil>(deadline - clock) * 100\<rceil> - 1"
    by (simp only: ceiling_diff_one)
  ultimately show "((a, dev, t, deadline, h1, clock1), a, dev, t, deadline, h, clock)
      \<in> measure (\<lambda>(a, dev, t, deadline, h, clock). nat \<lceil>(deadline - clock) * 100\<rceil>)"
    by simp
qed

declare check_response_loop.simps [simp del]

text \<open>
  An adapter object: its \<open>OsCmdHandler\<close> and its time-out in seconds. \<open>check_response\<close>
  computes the deadline from the clock at entry and runs the loop.
\<close>

record CommandAdapter =
  och :: OsCmdHandler
  timeout :: rat

fun default_timeout :: "adapter \<Rightarrow> rat" where
  "default_timeout EncoderRegisterCommunication = 1"
| "default_timeout IcmuCalibrationMode = 1"
| "default_timeout HrdStreaming = 5"
| "default_timeout PhaseInductanceMeasurement = 60"
| "default_timeout a = 25"

definition CommandAdapter_init :: "rat \<Rightarrow> CommandAdapter" where
  "CommandAdapter_init t = \<lparr>och = OsCmdHandler_init, timeout = t\<rparr>"

definition check_response ::
  "adapter \<Rightarrow> device \<Rightarrow> CommandAdapter \<Rightarrow> rat \<Rightarrow> (failure + reply) \<times> CommandAdapter \<times> rat" where
  "check_response a dev self clock =
     (let deadline = clock + timeout self in
      case check_response_loop a dev (timeout self) deadline (och self) clock of
        (result, h, clock') \<Rightarrow> (result, self\<lparr>och := h\<rparr>, clock'))"

text \<open>
  The command of the \<open>OpenLoopFieldModeHandler\<close> setters: byte 0 is 2, byte 1 selects the
  parameter (0 for \<open>set_starting_angle_milli_radian\<close> up to 6 for
  \<open>set_length_speed_per_thousand_rated_current_per_second\<close>), bytes 2 to 5 are the value,
  most significant byte first. Python's \<open>&\<close> and \<open>>>\<close> on unbounded integers are \<open>AND\<close>
  and \<open>drop_bit\<close> on \<open>int\<close>.
\<close>

definition open_loop_field_mode_command :: "int \<Rightarrow> int \<Rightarrow> int list" where
  "open_loop_field_mode_command b1 v =
     (let b0 = 2;
          b5 = v AND 0xFF;
          b4 = drop_bit 8 (v AND 0xFF00);
          b3 = drop_bit 16 (v AND 0xFF0000);
          b2 = drop_bit 24 (v AND 0xFF000000)
      in [b0, b1, b2, b3, b4, b5, 0, 0])"

definition send_command :: "int list \<Rightarrow> CommandAdapter \<Rightarrow> (failure + unit) \<times> CommandAdapter" where
  "send_command command self =
     (case execute_command command (och self) of (result, h) \<Rightarrow> (result, self\<lparr>och := h\<rparr>))"

definition set_starting_angle_milli_radian :: "int \<Rightarrow> CommandAdapter \<Rightarrow> (failure + unit) \<times> CommandAdapter" where
  "set_starting_angle_milli_radian angle_start_milli_radian self =
     send_command (open_loop_field_mode_command 0 angle_start_milli_radian) self"

definition set_ending_angle_milli_radian :: "int \<Rightarrow> CommandAdapter \<Rightarrow> (failure + unit) \<times> CommandAdapter" where
  "set_ending_angle_milli_radian angle_end_milli_radian self =
     send_command (open_loop_field_mode_command 1 angle_end_milli_radian) self"

definition set_max_rotational_speed_rad_per_second :: "int \<Rightarrow> CommandAdapter \<Rightarrow> (failure + unit) \<times> CommandAdapter" where
  "set_max_rotational_speed_rad_per_second max_rotational_speed_rad_per_second self =
     send_command (open_loop_field_mode_command 2 max_rotational_speed_rad_per_second) self"

definition set_rotational_acceleration_rad_per_squared_second :: "int \<Rightarrow> CommandAdapter \<Rightarrow> (failure + unit) \<times> CommandAdapter" where
  "set_rotational_acceleration_rad_per_squared_second rotational_acceleration_rad_per_squared_second self =
     send_command (open_loop_field_mode_command 3 rotational_acceleration_rad_per_squared_second) self"

definition set_length_start_per_thousand_rated_current :: "int \<Rightarrow> CommandAdapter \<Rightarrow> (failure + unit) \<times> CommandAdapter" where
  "set_length_start_per_thousand_rated_current length_start_per_thousand_rated_current self =
     send_command (open_loop_field_mode_command 4 length_start_per_thousand_rated_current) self"

definition set_length_end_per_thousand_rated_current :: "int \<Rightarrow> CommandAdapter \<Rightarrow> (failure + unit) \<times> CommandAdapter" where
  "set_length_end_per_thousand_rated_current length_end_per_thousand_rated_current self =
     send_command (open_loop_field_mode_command 5 length_end_per_thousand_rated_current) self"

definition set_length_speed_per_thousand_rated_current_per_second :: "int \<Rightarrow> CommandAdapter \<Rightarrow> (failure + unit) \<times> CommandAdapter" where
  "set_length_speed_per_thousand_rated_current_per_second length_speed_per_thousand_rated_current_per_second self =
     send_command (open_loop_field_mode_command 6 length_speed_per_thousand_rated_current_per_second) self"

text \<open>
  The opcodes (\<open>OsCmdCommand\<close>) and \<open>start_procedure\<close>, which the detection and measurement
  adapters have (opcodes 4 to 10): the command is the opcode followed by seven zeros.
\<close>

fun OsCmdCommand :: "adapter \<Rightarrow> int" where
  "OsCmdCommand EncoderRegisterCommunication = 0"
| "OsCmdCommand IcmuCalibrationMode = 1"
| "OsCmdCommand OpenLoopFieldMode = 2"
| "OsCmdCommand HrdStreaming = 3"
| "OsCmdCommand PhaseOrderDetection = 4"
| "OsCmdCommand CommutationOffsetMeasurement = 5"
| "OsCmdCommand OpenPhaseDetection = 6"
| "OsCmdCommand PolePairDetection = 7"
| "OsCmdCommand PhaseResistanceMeasurement = 8"
| "OsCmdCommand PhaseInductanceMeasurement = 9"
| "OsCmdCommand TorqueConstantMeasurement = 10"

definition start_procedure :: "adapter \<Rightarrow> CommandAdapter \<Rightarrow> (failure + unit) \<times> CommandAdapter" where
  "start_procedure a self = send_command [OsCmdCommand a, 0, 0, 0, 0, 0, 0, 0] self"

section \<open>Toolbox (toolbox.py)\<close>

text \<open>
  The object dictionary as the toolbox reads it: the values the accessor methods return
  while a handler is constructed.
\<close>

record ObjectDictionary =
  si_unit_velocity :: int
  gear_ratio_motor_revolutions :: int
  gear_ratio_shaft_revolutions :: int
  feedback_sensor_ports_subindex :: int
  feedback_sensor_ports :: "int \<Rightarrow> int"
  parameter :: "int \<Rightarrow> int \<Rightarrow> int"

definition COMMUTATION_AND_MOTION_CONTROL_FEEDBACK :: int where
  "COMMUTATION_AND_MOTION_CONTROL_FEEDBACK = 1"
definition COMMUTATION_AND_MONITORING :: int where "COMMUTATION_AND_MONITORING = 2"
definition MOTION_CONTROL_FEEDBACK_ONLY :: int where "MOTION_CONTROL_FEEDBACK_ONLY = 3"
definition COMMUTATION_ONLY :: int where "COMMUTATION_ONLY = 5"
definition POSITION :: int where "POSITION = 6"
definition COMMUTATION_AND_VELOCITY :: int where "COMMUTATION_AND_VELOCITY = 7"

lemmas SensorFunctions_defs =
  COMMUTATION_AND_MOTION_CONTROL_FEEDBACK_def COMMUTATION_AND_MONITORING_def
  MOTION_CONTROL_FEEDBACK_ONLY_def COMMUTATION_ONLY_def POSITION_def COMMUTATION_AND_VELOCITY_def

text \<open>
  The loop shared by the encoder look-ups: the first sensor port, in the order of
  \<open>range(0, od.feedback_sensor_ports_subindex())\<close>, that is configured (index not 0) with
  one of the selected functions.
\<close>

fun first_sensor_with :: "ObjectDictionary \<Rightarrow> int list \<Rightarrow> int list \<Rightarrow> int option" where
  "first_sensor_with od selected_functions [] = None"
| "first_sensor_with od selected_functions (subindex # rest) =
     (let sensor_config_index = feedback_sensor_ports od (subindex + 1) in
      if sensor_config_index \<noteq> 0 \<and> parameter od sensor_config_index 2 \<in> set selected_functions
      then Some sensor_config_index
      else first_sensor_with od selected_functions rest)"

definition get_motion_encoder_config_index ::
  "ObjectDictionary \<Rightarrow> bool option \<Rightarrow> bool option \<Rightarrow> failure + int" where
  "get_motion_encoder_config_index od position_control velocity_control =
     (if position_control \<noteq> Some True \<and> velocity_control \<noteq> Some True
      then Inl (ExceptionSensorConfig NoFunctionSelected)
      else
        let selected_functions =
              (if position_control = Some True \<and> velocity_control = Some False then [POSITION]
               else if position_control = Some False \<and> velocity_control = Some True
               then [COMMUTATION_AND_VELOCITY]
               else [COMMUTATION_AND_MOTION_CONTROL_FEEDBACK, MOTION_CONTROL_FEEDBACK_ONLY]
                    @ (if velocity_control = None then [POSITION] else [])
                    @ (if position_control = None then [COMMUTATION_AND_VELOCITY] else []))
        in case first_sensor_with od selected_functions [0 .. feedback_sensor_ports_subindex od - 1] of
             Some sensor_config_index \<Rightarrow> Inr sensor_config_index
           | None \<Rightarrow> Inl (ExceptionSensorConfig NoSensorConfigured))"

definition get_commutation_encoder_config_index :: "ObjectDictionary \<Rightarrow> failure + int" where
  "get_commutation_encoder_config_index od =
     (case first_sensor_with od
             [COMMUTATION_AND_MOTION_CONTROL_FEEDBACK, COMMUTATION_AND_MONITORING,
              COMMUTATION_ONLY, COMMUTATION_AND_VELOCITY]
             [0 .. feedback_sensor_ports_subindex od - 1] of
        Some sensor_config_index \<Rightarrow> Inr sensor_config_index
      | None \<Rightarrow> Inl (ExceptionSensorConfig NoSensorConfigured))"

definition get_si_unit_scaling_factor :: "ObjectDictionary \<Rightarrow> int option" where
  "get_si_unit_scaling_factor od =
     (if si_unit_velocity od = 11814656 then Some 1
      else if si_unit_velocity od = 4290004736 then Some 10
      else if si_unit_velocity od = 4273227520 then Some 100
      else if si_unit_velocity od = 4256450304 then Some 1000
      else None)"

text \<open>\<open>//\<close> is floor division, as \<open>div\<close> on \<open>int\<close>; it raises on a zero divisor.\<close>

definition get_gearbox_ratio :: "ObjectDictionary \<Rightarrow> failure + int" where
  "get_gearbox_ratio od =
     (if gear_ratio_shaft_revolutions od = 0 then Inl ZeroDivisionError
      else Inr (gear_ratio_motor_revolutions od div gear_ratio_shaft_revolutions od))"

definition get_gear_ratio :: "ObjectDictionary \<Rightarrow> failure + int" where
  "get_gear_ratio od =
     (case get_motion_encoder_config_index od (Some True) None of
        Inl e \<Rightarrow> Inl e
      | Inr position_control_encoder_index \<Rightarrow>
     (case get_commutation_encoder_config_index od of
        Inl e \<Rightarrow> Inl e
      | Inr commutation_encoder_index \<Rightarrow>
          if position_control_encoder_index \<noteq> commutation_encoder_index
          then get_gearbox_ratio od
          else Inr 1))"

definition get_tachometer_ratio :: "ObjectDictionary \<Rightarrow> failure + int" where
  "get_tachometer_ratio od =
     (case get_motion_encoder_config_index od None (Some True) of
        Inl e \<Rightarrow> Inl e
      | Inr velocity_control_encoder_index \<Rightarrow>
     (case get_commutation_encoder_config_index od of
        Inl e \<Rightarrow> Inl e
      | Inr commutation_encoder_index \<Rightarrow>
          if velocity_control_encoder_index \<noteq> commutation_encoder_index
          then get_gearbox_ratio od
          else Inr 1))"

section \<open>Motion profile supervisors (profiler_helpers.py)\<close>

text \<open>
  Float arithmetic. The supervisors compute with \<open>*\<close> and \<open>/\<close> on numbers that are integers
  or doubles. The result of such an operation is the exact result rounded to a double;
  \<open>rnd\<close> is that rounding (round-to-nearest of IEEE 754 binary64 in CPython), and the
  model and its theorems are for an arbitrary \<open>rnd\<close>: they hold for the doubles of the
  code as for exact arithmetic (\<open>rnd\<close> the identity). Integer operands are taken below
  \<open>2^53\<close> in magnitude, where their conversion to a double is exact. A product with the
  factor 1 is the other operand itself, for integers and doubles alike. \<open>a / b\<close> on integers is true
  division: it raises on a zero divisor and is otherwise the quotient rounded to a
  double. \<open>int(x)\<close> truncates towards zero, exactly.

  \<open>math.isclose(a, b, abs_tol=t)\<close> keeps its default relative tolerance
  \<open>rel_tol = 1e-09\<close>: it raises \<open>ValueError\<close> for a negative tolerance and is otherwise
  true when \<open>a == b\<close> or \<open>|b - a|\<close> is at most \<open>|rel_tol * b|\<close>, \<open>|rel_tol * a|\<close> or \<open>t\<close>.
\<close>

type_synonym rounding = "rat \<Rightarrow> rat"

definition py_int :: "rat \<Rightarrow> int" where
  "py_int x = (if 0 \<le> x then \<lfloor>x\<rfloor> else \<lceil>x\<rceil>)"

definition py_mul :: "rounding \<Rightarrow> rat \<Rightarrow> rat \<Rightarrow> rat" where
  "py_mul rnd a b = (if a = 1 then b else if b = 1 then a else rnd (a * b))"

definition truediv :: "rounding \<Rightarrow> int \<Rightarrow> int \<Rightarrow> failure + rat" where
  "truediv rnd a b =
     (if b = 0 then Inl ZeroDivisionError else Inr (rnd (of_int a / of_int b)))"

text \<open>
  The rounding of CPython's floats: IEEE 754 binary64, round to nearest, ties to even.
  A non-zero \<open>x\<close> with \<open>2^e \<le> |x| < 2^(e+1)\<close> is rounded to a multiple of \<open>2^(e-52)\<close>, and
  below \<open>2^(-1022)\<close> to a multiple of \<open>2^(-1074)\<close>. Results beyond the largest double
  (about \<open>1.8e308\<close>), where Python gives \<open>inf\<close> or raises \<open>OverflowError\<close>, are outside
  this definition.
\<close>

function log2_floor :: "int \<Rightarrow> int" where
  "log2_floor k = (if k < 2 then 0 else 1 + log2_floor (k div 2))"
  by auto
termination
  by (relation "measure nat") auto

declare log2_floor.simps [simp del]

definition pow2 :: "int \<Rightarrow> rat" where
  "pow2 k = (if 0 \<le> k then 2 ^ nat k else 1 / 2 ^ nat (- k))"

definition binary_exponent :: "rat \<Rightarrow> int" where
  "binary_exponent x =
     (let (p, q) = quotient_of x;
          k = log2_floor p - log2_floor q
      in if pow2 k \<le> x then k else k - 1)"

definition round_half_even :: "rat \<Rightarrow> int" where
  "round_half_even x =
     (let f = \<lfloor>x\<rfloor>; r = x - of_int f
      in if r < 1 / 2 then f else if 1 / 2 < r then f + 1 else if even f then f else f + 1)"

definition binary64 :: rounding where
  "binary64 x =
     (if x = 0 then 0
      else let ulp = pow2 (max (binary_exponent \<bar>x\<bar>) (- 1022) - 52)
           in sgn x * of_int (round_half_even (\<bar>x\<bar> / ulp)) * ulp)"

definition rel_tol :: rat where
  "rel_tol = 1 / 1000000000"

definition isclose :: "rat \<Rightarrow> rat \<Rightarrow> rat \<Rightarrow> failure + bool" where
  "isclose a b abs_tol =
     (if abs_tol < 0 then Inl ValueError
      else Inr (a = b \<or> \<bar>b - a\<bar> \<le> \<bar>rel_tol * b\<bar> \<or> \<bar>b - a\<bar> \<le> \<bar>rel_tol * a\<bar> \<or> \<bar>b - a\<bar> \<le> abs_tol))"

datatype VelocityParametersFrame =
    MOTOR_SHAFT_FRAME
  | DRIVE_SHAFT_FRAME
  | VELOCITY_CONTROL_FRAME
  | POSITION_CONTROL_FRAME

text \<open>
  What a supervisor does to the device, in order: the writes through \<open>od\<close> and the pulses
  through the state control \<open>sc\<close>.
\<close>

datatype device_call =
    od_torque_slope int
  | od_target_torque int
  | od_profile_acceleration int
  | od_profile_deceleration int
  | od_profile_velocity int
  | od_target_velocity int
  | od_target_position int
  | sc_pp_start_next_position_now
  | sc_pp_reset_bits

subsection \<open>TorqueProfileHandler\<close>

record TorqueProfileHandler =
  tq_torque_slope :: int
  tq_target_torque :: int
  tq_target_tolerance :: rat
  tq_profiler_timeout :: "rat option"
  tq_stabilization_duration :: "rat option"
  tq_calls :: "device_call list"

definition TorqueProfileHandler_init :: TorqueProfileHandler where
  "TorqueProfileHandler_init =
     \<lparr>tq_torque_slope = 0, tq_target_torque = 0, tq_target_tolerance = 0,
      tq_profiler_timeout = None, tq_stabilization_duration = None, tq_calls = []\<rparr>"

definition tq_set_profiler_configuration ::
  "int \<Rightarrow> rat \<Rightarrow> rat option \<Rightarrow> rat option \<Rightarrow> TorqueProfileHandler \<Rightarrow> TorqueProfileHandler" where
  "tq_set_profiler_configuration torque_slope target_tolerance profiler_timeout
       stabilization_duration self =
     (let self1 = self\<lparr>tq_torque_slope := torque_slope\<rparr>;
          self2 = self1\<lparr>tq_calls := tq_calls self1 @ [od_torque_slope (tq_torque_slope self1)]\<rparr>;
          self3 = self2\<lparr>tq_target_tolerance := target_tolerance\<rparr>;
          self4 = (case profiler_timeout of None \<Rightarrow> self3
                   | Some t \<Rightarrow> self3\<lparr>tq_profiler_timeout := Some t\<rparr>);
          self5 = (case stabilization_duration of None \<Rightarrow> self4
                   | Some d \<Rightarrow> self4\<lparr>tq_stabilization_duration := Some d\<rparr>)
      in self5)"

definition set_target_torque :: "int \<Rightarrow> TorqueProfileHandler \<Rightarrow> TorqueProfileHandler" where
  "set_target_torque target_torque self =
     (let self1 = self\<lparr>tq_target_torque := target_torque\<rparr>
      in self1\<lparr>tq_calls := tq_calls self1 @ [od_target_torque (tq_target_torque self1)]\<rparr>)"

subsection \<open>VelocityProfileHandler\<close>

record VelocityProfileHandler =
  v_si_unit_scaling_factor :: "int option"
  v_tachometer_ratio_factor :: int
  v_gear_ratio_factor :: int
  v_gearbox_ratio :: int
  v_acceleration :: rat
  v_deceleration :: rat
  v_target_tolerance :: rat
  v_profiler_timeout :: rat
  v_stabilization_duration :: rat
  v_stabilization_time :: "rat option"
  v_target_velocity :: int
  v_configured_frame :: "VelocityParametersFrame option"
  v_configured_frame_to_velocity_control_frame :: rat
  v_calls :: "device_call list"

definition VelocityProfileHandler_init :: "ObjectDictionary \<Rightarrow> failure + VelocityProfileHandler" where
  "VelocityProfileHandler_init od =
     (let si = get_si_unit_scaling_factor od in
      case get_tachometer_ratio od of Inl e \<Rightarrow> Inl e | Inr tachometer_ratio \<Rightarrow>
      case get_gear_ratio od of Inl e \<Rightarrow> Inl e | Inr gear_ratio \<Rightarrow>
      case get_gearbox_ratio od of Inl e \<Rightarrow> Inl e | Inr gearbox_ratio \<Rightarrow>
        Inr \<lparr>v_si_unit_scaling_factor = si,
             v_tachometer_ratio_factor = tachometer_ratio,
             v_gear_ratio_factor = gear_ratio,
             v_gearbox_ratio = gearbox_ratio,
             v_acceleration = 0, v_deceleration = 0, v_target_tolerance = 0,
             v_profiler_timeout = 20, v_stabilization_duration = 2,
             v_stabilization_time = None, v_target_velocity = 0,
             v_configured_frame = None, v_configured_frame_to_velocity_control_frame = 0,
             v_calls = []\<rparr>)"

definition v_set_profiler_configuration ::
  "rounding \<Rightarrow> VelocityParametersFrame \<Rightarrow> rat \<Rightarrow> rat \<Rightarrow> rat \<Rightarrow> rat option \<Rightarrow> rat option
     \<Rightarrow> VelocityProfileHandler \<Rightarrow> (failure + unit) \<times> VelocityProfileHandler" where
  "v_set_profiler_configuration rnd velocity_parameters_frame acceleration deceleration
       target_tolerance profiler_timeout stabilization_duration self =
     (let self1 = self\<lparr>v_configured_frame := Some velocity_parameters_frame\<rparr> in
      case (case velocity_parameters_frame of
              DRIVE_SHAFT_FRAME \<Rightarrow>
                truediv rnd (v_gearbox_ratio self1) (v_tachometer_ratio_factor self1)
            | MOTOR_SHAFT_FRAME \<Rightarrow> truediv rnd 1 (v_tachometer_ratio_factor self1)
            | VELOCITY_CONTROL_FRAME \<Rightarrow> Inr 1
            | POSITION_CONTROL_FRAME \<Rightarrow>
                truediv rnd (v_gear_ratio_factor self1) (v_tachometer_ratio_factor self1)) of
        Inl e \<Rightarrow> (Inl e, self1)
      | Inr factor \<Rightarrow>
          let self2 = self1\<lparr>v_configured_frame_to_velocity_control_frame := factor\<rparr>;
              self3 = self2\<lparr>v_target_tolerance :=
                 py_mul rnd target_tolerance (v_configured_frame_to_velocity_control_frame self2)\<rparr>;
              self4 = self3\<lparr>v_acceleration :=
                 py_mul rnd acceleration (v_configured_frame_to_velocity_control_frame self3)\<rparr>;
              self5 = self4\<lparr>v_deceleration :=
                 py_mul rnd deceleration (v_configured_frame_to_velocity_control_frame self4)\<rparr>
          in case v_si_unit_scaling_factor self5 of
               None \<Rightarrow> (Inl TypeError, self5)
             | Some si \<Rightarrow>
                 let self6 = self5\<lparr>v_calls := v_calls self5 @
                   [od_profile_acceleration (py_int (py_mul rnd (v_acceleration self5) (of_int si))),
                    od_profile_deceleration (py_int (py_mul rnd (v_deceleration self5) (of_int si)))]\<rparr>;
                     self7 = (case profiler_timeout of None \<Rightarrow> self6
                              | Some t \<Rightarrow> self6\<lparr>v_profiler_timeout := t\<rparr>);
                     self8 = (case stabilization_duration of None \<Rightarrow> self7
                              | Some d \<Rightarrow> self7\<lparr>v_stabilization_duration := d\<rparr>);
                     self9 = self8\<lparr>v_target_velocity := 0\<rparr>
                 in (Inr (), self9\<lparr>v_calls := v_calls self9 @
                                      [od_target_velocity (v_target_velocity self9)]\<rparr>))"

definition set_target_velocity ::
  "rounding \<Rightarrow> rat \<Rightarrow> rat \<Rightarrow> VelocityProfileHandler
     \<Rightarrow> (failure + unit) \<times> VelocityProfileHandler" where
  "set_target_velocity rnd target_velocity now self =
     (let self1 = self\<lparr>v_target_velocity :=
            py_int (py_mul rnd target_velocity (v_configured_frame_to_velocity_control_frame self))\<rparr>
      in case v_si_unit_scaling_factor self1 of
           None \<Rightarrow> (Inl TypeError, self1)
         | Some si \<Rightarrow>
             let self2 = self1\<lparr>v_calls := v_calls self1 @
                                  [od_target_velocity (v_target_velocity self1 * si)]\<rparr>
             in (Inr (), self2\<lparr>v_stabilization_time :=
                                  Some (now + v_stabilization_duration self2)\<rparr>))"

subsection \<open>ProfilePositionHandler\<close>

record ProfilePositionHandler =
  pp_si_unit_scaling_factor :: "int option"
  pp_tachometer_ratio_factor :: int
  pp_gear_ratio_factor :: int
  pp_gearbox_ratio :: int
  pp_acceleration :: rat
  pp_deceleration :: rat
  pp_max_velocity :: rat
  pp_target_tolerance :: rat
  pp_profiler_timeout :: rat
  pp_stabilization_duration :: rat
  pp_stabilization_time :: "rat option"
  pp_target_position :: "int option"
  pp_configured_frame :: "VelocityParametersFrame option"
  pp_configured_frame_to_position_control_frame :: rat
  pp_calls :: "device_call list"

definition ProfilePositionHandler_init :: "ObjectDictionary \<Rightarrow> failure + ProfilePositionHandler" where
  "ProfilePositionHandler_init od =
     (let si = get_si_unit_scaling_factor od in
      case get_tachometer_ratio od of Inl e \<Rightarrow> Inl e | Inr tachometer_ratio \<Rightarrow>
      case get_gear_ratio od of Inl e \<Rightarrow> Inl e | Inr gear_ratio \<Rightarrow>
      case get_gearbox_ratio od of Inl e \<Rightarrow> Inl e | Inr gearbox_ratio \<Rightarrow>
        Inr \<lparr>pp_si_unit_scaling_factor = si,
             pp_tachometer_ratio_factor = tachometer_ratio,
             pp_gear_ratio_factor = gear_ratio,
             pp_gearbox_ratio = gearbox_ratio,
             pp_acceleration = 0, pp_deceleration = 0, pp_max_velocity = 0,
             pp_target_tolerance = 30, pp_profiler_timeout = 20,
             pp_stabilization_duration = 2, pp_stabilization_time = None,
             pp_target_position = None,
             pp_configured_frame = None, pp_configured_frame_to_position_control_frame = 0,
             pp_calls = []\<rparr>)"

definition pp_set_profiler_configuration ::
  "rounding \<Rightarrow> VelocityParametersFrame \<Rightarrow> rat \<Rightarrow> rat \<Rightarrow> rat \<Rightarrow> rat option \<Rightarrow> rat option
     \<Rightarrow> rat option \<Rightarrow> ProfilePositionHandler \<Rightarrow> (failure + unit) \<times> ProfilePositionHandler" where
  "pp_set_profiler_configuration rnd velocity_parameters_frame acceleration deceleration
       max_velocity target_tolerance profiler_timeout stabilization_duration self =
     (let self1 = self\<lparr>pp_configured_frame := Some velocity_parameters_frame\<rparr> in
      case (case velocity_parameters_frame of
              DRIVE_SHAFT_FRAME \<Rightarrow> truediv rnd (pp_gearbox_ratio self1) (pp_gear_ratio_factor self1)
            | MOTOR_SHAFT_FRAME \<Rightarrow> truediv rnd 1 (pp_gear_ratio_factor self1)
            | POSITION_CONTROL_FRAME \<Rightarrow> Inr 1
            | VELOCITY_CONTROL_FRAME \<Rightarrow>
                truediv rnd (pp_tachometer_ratio_factor self1) (pp_gear_ratio_factor self1)) of
        Inl e \<Rightarrow> (Inl e, self1)
      | Inr factor \<Rightarrow>
          let self2 = self1\<lparr>pp_configured_frame_to_position_control_frame := factor\<rparr>;
              self3 = self2\<lparr>pp_acceleration :=
                 py_mul rnd acceleration (pp_configured_frame_to_position_control_frame self2)\<rparr>;
              self4 = self3\<lparr>pp_deceleration :=
                 py_mul rnd deceleration (pp_configured_frame_to_position_control_frame self3)\<rparr>;
              self5 = self4\<lparr>pp_max_velocity :=
                 py_mul rnd max_velocity (pp_configured_frame_to_position_control_frame self4)\<rparr>
          in case pp_si_unit_scaling_factor self5 of
               None \<Rightarrow> (Inl TypeError, self5)
             | Some si \<Rightarrow>
                 let self6 = self5\<lparr>pp_calls := pp_calls self5 @
                   [od_profile_acceleration (py_int (py_mul rnd (pp_acceleration self5) (of_int si))),
                    od_profile_deceleration (py_int (py_mul rnd (pp_deceleration self5) (of_int si))),
                    od_profile_velocity (py_int (py_mul rnd (pp_max_velocity self5) (of_int si)))]\<rparr>;
                     self7 = (case target_tolerance of None \<Rightarrow> self6
                              | Some tol \<Rightarrow> self6\<lparr>pp_target_tolerance := tol\<rparr>);
                     self8 = (case profiler_timeout of None \<Rightarrow> self7
                              | Some t \<Rightarrow> self7\<lparr>pp_profiler_timeout := t\<rparr>);
                     self9 = (case stabilization_duration of None \<Rightarrow> self8
                              | Some d \<Rightarrow> self8\<lparr>pp_stabilization_duration := d\<rparr>)
                 in (Inr (), self9))"

text \<open>
  \<open>start_trajectory\<close> at clock \<open>clock\<close>: the sleep of 10 ms advances the clock, and the
  stabilization deadline is computed from the clock after it.
\<close>

definition start_trajectory ::
  "int \<Rightarrow> rat \<Rightarrow> ProfilePositionHandler \<Rightarrow> ProfilePositionHandler \<times> rat" where
  "start_trajectory target_position clock self =
     (let self1 = self\<lparr>pp_target_position := Some target_position\<rparr>;
          self2 = self1\<lparr>pp_calls := pp_calls self1 @
                     [od_target_position target_position, sc_pp_start_next_position_now]\<rparr>;
          clock1 = clock + 1 / 100;
          self3 = self2\<lparr>pp_calls := pp_calls self2 @ [sc_pp_reset_bits]\<rparr>
      in (self3\<lparr>pp_stabilization_time := Some (clock1 + pp_stabilization_duration self3)\<rparr>,
          clock1))"

text \<open>
  \<open>is_target_reached\<close>: \<open>demand_position_internal\<close> is what
  \<open>od.position_demand_internal_value()\<close> returns in this call and \<open>now\<close> is what
  \<open>time.time()\<close> returns in it.
\<close>

definition is_target_reached ::
  "int option \<Rightarrow> int \<Rightarrow> rat \<Rightarrow> ProfilePositionHandler
     \<Rightarrow> (failure + bool) \<times> ProfilePositionHandler" where
  "is_target_reached expected_position demand_position_internal now self =
     (case pp_target_position self of
        None \<Rightarrow> (Inl (Failed TrajectoryNotStarted), self)
      | Some target_position \<Rightarrow>
          let expected_position_internal =
                (case expected_position of None \<Rightarrow> target_position | Some e \<Rightarrow> e)
          in case isclose (of_int demand_position_internal) (of_int expected_position_internal)
                    (pp_target_tolerance self) of
               Inl e \<Rightarrow> (Inl e, self)
             | Inr close \<Rightarrow>
                 if close
                 then (case pp_stabilization_time self of
                         None \<Rightarrow> (Inl TypeError, self)
                       | Some stabilization_time \<Rightarrow>
                           if now > stabilization_time then (Inr True, self)
                           else (Inr False, self))
                 else (Inr False,
                       self\<lparr>pp_stabilization_time := Some (now + pp_stabilization_duration self)\<rparr>))"

text \<open>
  A sequence of polls, each given by the clock at the poll, the demand position read
  and the expected position passed: the handler after all of them.
\<close>

definition after_polls ::
  "ProfilePositionHandler \<Rightarrow> (rat \<times> int \<times> int option) list \<Rightarrow> ProfilePositionHandler" where
  "after_polls self polls =
     foldl (\<lambda>s (now, demand, expected). snd (is_target_reached expected demand now s)) self polls"

text \<open>
  The test \<open>is_target_reached\<close> applies to a demand position: \<open>math.isclose\<close> against the
  expected position (the target position when none is passed) with the handler's
  tolerance as \<open>abs_tol\<close>, evaluated without raising.
\<close>

definition within_tolerance :: "ProfilePositionHandler \<Rightarrow> int \<Rightarrow> int option \<Rightarrow> bool" where
  "within_tolerance self demand expected =
     (case pp_target_position self of
        None \<Rightarrow> False
      | Some target_position \<Rightarrow>
          isclose (of_int demand)
            (of_int (case expected of None \<Rightarrow> target_position | Some e \<Rightarrow> e))
            (pp_target_tolerance self) = Inr True)"

section \<open>Properties of the channel\<close>

lemma status_in_progress_set:
  "s \<in> set status_in_progress \<longleftrightarrow> s = 255 \<or> (100 \<le> s \<and> s \<le> 200)"
  unfolding status_in_progress_def OsCmdStatus_defs
  by (simp only: list.set set_upto insert_iff atLeastAtMost_iff)

text \<open>
  C1. While a command is in flight (\<open>get_active_command\<close> is not \<open>None\<close>), \<open>execute_command\<close>
  with any command fails with the "already in progress" failure and leaves the handler,
  in particular the log of parameter writes, exactly as it was. With no command in
  flight and a command made of bytes, it succeeds, appends exactly one write (the
  command itself) to the log and marks the command in flight.
\<close>

theorem execute_command_busy_or_sent:
  "(get_active_command h \<noteq> None \<longrightarrow>
      execute_command command h = (Inl (Failed CommandAlreadyInProgress), h)) \<and>
   (get_active_command h = None \<and> bytes_ok command \<longrightarrow>
      (\<exists>h'. execute_command command h = (Inr (), h') \<and>
            od_command_writes h' = od_command_writes h @ [command] \<and>
            length (od_command_writes h') = length (od_command_writes h) + 1 \<and>
            get_active_command h' = Some command \<and>
            od_response_reads h' = od_response_reads h))"
  by (simp add: execute_command_def get_active_command_def Let_def)

theorem execute_command_busy_or_sent_witness:
  "get_active_command (OsCmdHandler_init\<lparr>current_command := Some [5, 0, 0, 0, 0, 0, 0, 0]\<rparr>) \<noteq> None \<and>
   execute_command [4, 0, 0, 0, 0, 0, 0, 0]
       (OsCmdHandler_init\<lparr>current_command := Some [5, 0, 0, 0, 0, 0, 0, 0]\<rparr>)
     = (Inl (Failed CommandAlreadyInProgress),
        OsCmdHandler_init\<lparr>current_command := Some [5, 0, 0, 0, 0, 0, 0, 0]\<rparr>) \<and>
   get_active_command OsCmdHandler_init = None \<and>
   bytes_ok [5, 0, 0, 0, 0, 0, 0, 0] \<and>
   (\<exists>h'. execute_command [5, 0, 0, 0, 0, 0, 0, 0] OsCmdHandler_init = (Inr (), h') \<and>
         od_command_writes h' = [[5, 0, 0, 0, 0, 0, 0, 0]] \<and>
         get_active_command h' = Some [5, 0, 0, 0, 0, 0, 0, 0])"
proof -
  have busy: "get_active_command (OsCmdHandler_init\<lparr>current_command := Some [5, 0, 0, 0, 0, 0, 0, 0]\<rparr>) \<noteq> None"
    by (simp add: get_active_command_def)
  have idle: "get_active_command OsCmdHandler_init = None"
    by (simp add: get_active_command_def OsCmdHandler_init_def)
  have bytes: "bytes_ok [5, 0, 0, 0, 0, 0, 0, 0]"
    by (simp add: bytes_ok_def is_byte_def)
  from execute_command_busy_or_sent
         [of "OsCmdHandler_init\<lparr>current_command := Some [5, 0, 0, 0, 0, 0, 0, 0]\<rparr>"
             "[4, 0, 0, 0, 0, 0, 0, 0]"] busy
  have 1: "execute_command [4, 0, 0, 0, 0, 0, 0, 0]
       (OsCmdHandler_init\<lparr>current_command := Some [5, 0, 0, 0, 0, 0, 0, 0]\<rparr>)
     = (Inl (Failed CommandAlreadyInProgress),
        OsCmdHandler_init\<lparr>current_command := Some [5, 0, 0, 0, 0, 0, 0, 0]\<rparr>)"
    by blast
  from execute_command_busy_or_sent [of OsCmdHandler_init "[5, 0, 0, 0, 0, 0, 0, 0]"] idle bytes
  obtain h' where 2: "execute_command [5, 0, 0, 0, 0, 0, 0, 0] OsCmdHandler_init = (Inr (), h')"
    "od_command_writes h' = od_command_writes OsCmdHandler_init @ [[5, 0, 0, 0, 0, 0, 0, 0]]"
    "get_active_command h' = Some [5, 0, 0, 0, 0, 0, 0, 0]"
    by blast
  from 2 have 3: "\<exists>h'. execute_command [5, 0, 0, 0, 0, 0, 0, 0] OsCmdHandler_init = (Inr (), h') \<and>
         od_command_writes h' = [[5, 0, 0, 0, 0, 0, 0, 0]] \<and>
         get_active_command h' = Some [5, 0, 0, 0, 0, 0, 0, 0]"
    by (simp add: OsCmdHandler_init_def)
  from busy 1 idle bytes 3 show ?thesis by blast
qed

text \<open>
  C2. A poll whose status byte is in the in-progress set (the sentinel \<open>CMD_IN_PROGRESS\<close> or
  a value from \<open>IN_PROCESS_0\<close> to \<open>IN_PROCESS_100\<close>) returns the raw response, counts one
  read and leaves the in-flight marker as it was. A poll whose status byte is one of the
  four terminal statuses returns the raw response, counts one read and sets the marker
  to \<open>None\<close>, so the active command is none afterwards.
\<close>

theorem get_response_marker:
  "dev (od_response_reads h) = status # payload \<Longrightarrow>
   (status = CMD_IN_PROGRESS \<or> (IN_PROCESS_0 \<le> status \<and> status \<le> IN_PROCESS_100) \<longrightarrow>
      get_response dev h =
        (Inr (status # payload), h\<lparr>od_response_reads := Suc (od_response_reads h)\<rparr>) \<and>
      get_active_command (snd (get_response dev h)) = get_active_command h) \<and>
   (status \<in> {COMPLETED_NOERROR_NOREPLY, COMPLETED_NOERROR_WITHREPLY,
               COMPLETED_WITHERROR_NOREPLY, COMPLETED_WITHERROR_WITHREPLY} \<longrightarrow>
      get_response dev h =
        (Inr (status # payload),
         h\<lparr>od_response_reads := Suc (od_response_reads h), current_command := None\<rparr>) \<and>
      get_active_command (snd (get_response dev h)) = None)"
  by (auto simp: get_response_def item_def status_in_progress_set get_active_command_def
                 OsCmdStatus_defs Let_def)

theorem get_response_marker_witness:
  "get_response (\<lambda>n. [150, 0, 0, 0, 0, 0, 0, 0])
      (OsCmdHandler_init\<lparr>current_command := Some [5, 0, 0, 0, 0, 0, 0, 0]\<rparr>)
     = (Inr [150, 0, 0, 0, 0, 0, 0, 0],
        OsCmdHandler_init\<lparr>current_command := Some [5, 0, 0, 0, 0, 0, 0, 0],
                           od_response_reads := 1\<rparr>) \<and>
   get_response (\<lambda>n. [1, 0, 1, 44, 0, 0, 0, 0])
      (OsCmdHandler_init\<lparr>current_command := Some [5, 0, 0, 0, 0, 0, 0, 0]\<rparr>)
     = (Inr [1, 0, 1, 44, 0, 0, 0, 0],
        OsCmdHandler_init\<lparr>current_command := None, od_response_reads := 1\<rparr>)"
  using get_response_marker
          [of "\<lambda>n. [150, 0, 0, 0, 0, 0, 0, 0]"
              "OsCmdHandler_init\<lparr>current_command := Some [5, 0, 0, 0, 0, 0, 0, 0]\<rparr>"
              150 "[0, 0, 0, 0, 0, 0, 0]"]
        get_response_marker
          [of "\<lambda>n. [1, 0, 1, 44, 0, 0, 0, 0]"
              "OsCmdHandler_init\<lparr>current_command := Some [5, 0, 0, 0, 0, 0, 0, 0]\<rparr>"
              1 "[0, 1, 44, 0, 0, 0, 0]"]
  by (simp add: OsCmdStatus_defs OsCmdHandler_init_def)

section \<open>Properties of the polling loop\<close>

lemma iteration_in_progress:
  assumes "dev (od_response_reads h) = status # payload"
      and "status \<in> set status_in_progress"
  shows "check_response_iteration a dev t deadline h clock =
           (if clock + 1 / 100 > deadline
            then Inl (Inl (timeout_failure a t), h\<lparr>od_response_reads := Suc (od_response_reads h)\<rparr>,
                      clock + 1 / 100)
            else Inr (h\<lparr>od_response_reads := Suc (od_response_reads h)\<rparr>, clock + 1 / 100))"
proof -
  from assms(2) have st: "status = 255 \<or> (100 \<le> status \<and> status \<le> 200)"
    by (simp only: status_in_progress_set)
  have gr: "get_response dev h =
      (Inr (status # payload), h\<lparr>od_response_reads := Suc (od_response_reads h)\<rparr>)"
    using assms by (simp add: get_response_def item_def Let_def)
  have ne: "status \<noteq> success_status a"
    using st by (cases a) (auto simp: OsCmdStatus_defs)
  have hr: "handle_response a (status # payload) status = Pass"
    using st ne assms(2) by (auto simp: handle_response_def OsCmdStatus_defs)
  show ?thesis
    by (simp add: check_response_iteration_def gr hr Let_def)
qed

lemma loop_times_out:
  assumes "\<forall>n. \<exists>status payload. dev n = status # payload \<and> status \<in> set status_in_progress"
  shows "\<exists>h' clock'. check_response_loop a dev t deadline h clock = (Inl (timeout_failure a t), h', clock')
            \<and> deadline < clock' \<and> clock' \<le> max deadline clock + 1 / 100
            \<and> current_command h' = current_command h"
  using assms
proof (induction a dev t deadline h clock rule: check_response_loop.induct)
  case (1 a dev t deadline h clock)
  from "1.prems" obtain status payload
    where r: "dev (od_response_reads h) = status # payload" "status \<in> set status_in_progress"
    by blast
  have it: "check_response_iteration a dev t deadline h clock =
           (if clock + 1 / 100 > deadline
            then Inl (Inl (timeout_failure a t), h\<lparr>od_response_reads := Suc (od_response_reads h)\<rparr>,
                      clock + 1 / 100)
            else Inr (h\<lparr>od_response_reads := Suc (od_response_reads h)\<rparr>, clock + 1 / 100))"
    using r by (rule iteration_in_progress)
  show ?case
  proof (cases "clock + 1 / 100 > deadline")
    case True
    with it show ?thesis
      by (subst check_response_loop.simps) simp
  next
    case False
    let ?h1 = "h\<lparr>od_response_reads := Suc (od_response_reads h)\<rparr>"
    from False it have it': "check_response_iteration a dev t deadline h clock = Inr (?h1, clock + 1 / 100)"
      by simp
    from False have le: "max deadline (clock + 1 / 100) = deadline" by simp
    from "1.IH" [OF it' refl "1.prems"]
    obtain h' clock' where
      "check_response_loop a dev t deadline ?h1 (clock + 1 / 100) = (Inl (timeout_failure a t), h', clock')"
      "deadline < clock'" "clock' \<le> max deadline (clock + 1 / 100) + 1 / 100"
      "current_command h' = current_command ?h1"
      by blast
    with it' le show ?thesis
      by (subst check_response_loop.simps) simp
  qed
qed

text \<open>
  C3. With the clock advancing by one poll interval (10 ms) per loop iteration, a
  non-negative time-out and a device whose every response carries an in-progress
  status, \<open>check_response\<close> of every adapter terminates with the time-out failure
  (\<open>pytest.fail\<close>; \<open>OsCommandException\<close> in \<open>PhaseInductanceMeasurementHandler\<close>), and the
  time elapsed when it fails is more than the time-out and at most the time-out plus
  one poll interval.
\<close>

theorem check_response_times_out:
  assumes "0 \<le> timeout self"
      and "\<forall>n. dev n \<noteq> [] \<and> (hd (dev n) = CMD_IN_PROGRESS \<or>
                 (IN_PROCESS_0 \<le> hd (dev n) \<and> hd (dev n) \<le> IN_PROCESS_100))"
  shows "\<exists>self' clock'.
           check_response a dev self clock =
             (Inl (if a = PhaseInductanceMeasurement
                   then OsCommandException (StatusInProgress (timeout self))
                   else Failed (StatusInProgress (timeout self))), self', clock') \<and>
           timeout self < clock' - clock \<and> clock' - clock \<le> timeout self + 1 / 100"
proof -
  have dev: "\<forall>n. \<exists>status payload. dev n = status # payload \<and> status \<in> set status_in_progress"
  proof
    fix n
    from assms(2) have ne: "dev n \<noteq> []"
      and st: "hd (dev n) = 255 \<or> (100 \<le> hd (dev n) \<and> hd (dev n) \<le> 200)"
      by (simp_all add: OsCmdStatus_defs)
    from ne obtain status payload where c: "dev n = status # payload" by (cases "dev n") auto
    with st have "status \<in> set status_in_progress" by (simp add: status_in_progress_set)
    with c show "\<exists>status payload. dev n = status # payload \<and> status \<in> set status_in_progress"
      by blast
  qed
  from assms(1) have le: "max (clock + timeout self) clock = clock + timeout self" by simp
  from loop_times_out [OF dev, of a "timeout self" "clock + timeout self" "och self" clock] le
  obtain h' clock' where l:
    "check_response_loop a dev (timeout self) (clock + timeout self) (och self) clock
       = (Inl (timeout_failure a (timeout self)), h', clock')"
    "clock + timeout self < clock'" "clock' \<le> clock + timeout self + 1 / 100"
    by auto
  have tf: "timeout_failure a (timeout self) =
      (if a = PhaseInductanceMeasurement
       then OsCommandException (StatusInProgress (timeout self))
       else Failed (StatusInProgress (timeout self)))"
    by (cases a) simp_all
  from l tf show ?thesis
    by (auto simp: check_response_def Let_def)
qed

theorem check_response_times_out_witness:
  "0 \<le> timeout (CommandAdapter_init 1) \<and>
   (\<exists>self' clock'.
      check_response EncoderRegisterCommunication (\<lambda>n. [255, 0, 0, 0, 0, 0, 0, 0])
          (CommandAdapter_init 1) 0
        = (Inl (Failed (StatusInProgress 1)), self', clock') \<and>
      1 < clock' \<and> clock' \<le> 101 / 100)"
  using check_response_times_out
          [of "CommandAdapter_init 1" "\<lambda>n. [255, 0, 0, 0, 0, 0, 0, 0]"
              EncoderRegisterCommunication 0]
  by (simp add: CommandAdapter_init_def OsCmdStatus_defs)


lemma get_response_terminal:
  assumes "dev (od_response_reads h) = response" "response \<noteq> []"
      and "response ! 0 \<in> {0, 1, 2, 3}"
  shows "get_response dev h =
           (Inr response, h\<lparr>od_response_reads := Suc (od_response_reads h), current_command := None\<rparr>)"
  using assms
  by (auto simp: get_response_def item_def status_in_progress_set Let_def)

text \<open>
  C8. When the polled response has status \<open>COMPLETED_NOERROR_WITHREPLY\<close>, \<open>check_response\<close>
  of the commutation-offset adapter returns \<open>response[2] << 8 | response[3]\<close>; for the
  reply bytes \<open>0x01\<close> and \<open>0x2C\<close> that value is 300.
\<close>

theorem commutation_offset_decode:
  "dev (od_response_reads (och self)) = response \<Longrightarrow> 4 \<le> length response \<Longrightarrow>
   response ! 0 = COMPLETED_NOERROR_WITHREPLY \<Longrightarrow>
   check_response CommutationOffsetMeasurement dev self clock =
     (Inr (ReplyInt (push_bit 8 (response ! 2) OR response ! 3)),
      self\<lparr>och := (och self)\<lparr>od_response_reads := Suc (od_response_reads (och self)),
                               current_command := None\<rparr>\<rparr>,
      clock + 1 / 100) \<and>
   (response ! 2 = 0x01 \<and> response ! 3 = 0x2C \<longrightarrow>
      fst (check_response CommutationOffsetMeasurement dev self clock) = Inr (ReplyInt 300))"
proof -
  assume r: "dev (od_response_reads (och self)) = response" and len: "4 \<le> length response"
    and st: "response ! 0 = COMPLETED_NOERROR_WITHREPLY"
  from len have ne: "response \<noteq> []" by auto
  from st have "response ! 0 \<in> {0, 1, 2, 3}" by (simp add: OsCmdStatus_defs)
  note gr = get_response_terminal [where dev = dev and h = "och self", OF r ne this]
  have hr: "handle_response CommutationOffsetMeasurement response (response ! 0)
      = Return (ReplyInt (push_bit 8 (response ! 2) OR response ! 3))"
    using st len by (simp add: handle_response_def reply_16_def item_def)
  have it: "check_response_iteration CommutationOffsetMeasurement dev t deadline (och self) clock =
      Inl (Inr (ReplyInt (push_bit 8 (response ! 2) OR response ! 3)),
           (och self)\<lparr>od_response_reads := Suc (od_response_reads (och self)), current_command := None\<rparr>,
           clock + 1 / 100)" for t deadline
    by (simp add: check_response_iteration_def gr hr Let_def)
  have main: "check_response CommutationOffsetMeasurement dev self clock =
     (Inr (ReplyInt (push_bit 8 (response ! 2) OR response ! 3)),
      self\<lparr>och := (och self)\<lparr>od_response_reads := Suc (od_response_reads (och self)),
                               current_command := None\<rparr>\<rparr>,
      clock + 1 / 100)"
    by (simp add: check_response_def Let_def check_response_loop.simps it)
  have "push_bit 8 (0x01 :: int) OR 0x2C = 300" by (simp add: push_bit_eq_mult)
  with main show ?thesis by auto
qed

theorem commutation_offset_decode_witness:
  "check_response CommutationOffsetMeasurement (\<lambda>n. [1, 0, 0x01, 0x2C, 0, 0, 0, 0])
      (CommandAdapter_init 25) 0
    = (Inr (ReplyInt 300),
       \<lparr>och = \<lparr>current_command = None, current_mode = EXECUTE_NEXT_CMD,
               od_command_writes = [], od_response_reads = 1\<rparr>, timeout = 25\<rparr>,
       1 / 100)"
  using commutation_offset_decode
          [of "\<lambda>n. [1, 0, 0x01, 0x2C, 0, 0, 0, 0]" "CommandAdapter_init 25"
              "[1, 0, 0x01, 0x2C, 0, 0, 0, 0]" 0]
  by (simp add: CommandAdapter_init_def OsCmdHandler_init_def OsCmdStatus_defs push_bit_eq_mult)

lemma known_error_code:
  "3 \<le> length response \<Longrightarrow>
   error_with_reply a response =
     (case map_of (OsCmdErrorCodes @ specific_error_codes a) (response ! 2) of
        Some name \<Rightarrow> OsCommandException (ErrorCode (response ! 2) name)
      | None \<Rightarrow> Failed (UnknownErrorCode (response ! 2)))"
proof -
  assume "3 \<le> length response"
  then have len: "2 < length response" by simp
  have dom: "code \<in> fst ` set xs \<longleftrightarrow> map_of xs code \<noteq> None"
    for xs :: "(int \<times> string) list" and code
    by (simp add: map_of_eq_None_iff)
  show ?thesis
    using len
    by (simp add: error_with_reply_def item_def dom enum_name_def map_add_def
             split: option.splits)
qed

text \<open>
  C9. At any iteration of the polling loop of any adapter, a response with status
  \<open>COMPLETED_WITHERROR_WITHREPLY\<close> ends the loop with a failure and never with a value:
  when \<open>response[2]\<close> is a member of \<open>OsCmdErrorCodes\<close> or of the adapter's own
  enumeration (\<open>OsCmd3ErrorCodes\<close> for HRD streaming, \<open>OsCmd6ErrorCodes\<close> for open-phase
  detection, none for the others), the failure is an \<open>OsCommandException\<close> carrying the
  code and the name of that member; otherwise it is the \<open>pytest.fail\<close> carrying the raw
  code. The in-flight marker is cleared by the poll.
\<close>

theorem error_with_reply_reported:
  "dev (od_response_reads h) = response \<Longrightarrow> 3 \<le> length response \<Longrightarrow>
   response ! 0 = COMPLETED_WITHERROR_WITHREPLY \<Longrightarrow>
   (\<exists>e h' clock'. check_response_loop a dev t deadline h clock = (Inl e, h', clock') \<and>
      get_active_command h' = None \<and>
      (\<forall>name. map_of (OsCmdErrorCodes @ specific_error_codes a) (response ! 2) = Some name \<longrightarrow>
          e = OsCommandException (ErrorCode (response ! 2) name)) \<and>
      (map_of (OsCmdErrorCodes @ specific_error_codes a) (response ! 2) = None \<longrightarrow>
          e = Failed (UnknownErrorCode (response ! 2))))"
proof -
  assume r: "dev (od_response_reads h) = response" and len: "3 \<le> length response"
    and st: "response ! 0 = COMPLETED_WITHERROR_WITHREPLY"
  from len have ne: "response \<noteq> []" by auto
  from st have "response ! 0 \<in> {0, 1, 2, 3}" by (simp add: OsCmdStatus_defs)
  note gr = get_response_terminal [where dev = dev and h = h, OF r ne this]
  have nsucc: "response ! 0 \<noteq> success_status a"
    using st by (cases a) (simp_all add: OsCmdStatus_defs)
  have hr: "handle_response a response (response ! 0) = Raise (error_with_reply a response)"
    using st nsucc by (simp add: handle_response_def)
  have it: "check_response_iteration a dev t deadline h clock =
      Inl (Inl (error_with_reply a response),
           h\<lparr>od_response_reads := Suc (od_response_reads h), current_command := None\<rparr>,
           clock + 1 / 100)"
    by (simp add: check_response_iteration_def gr hr Let_def)
  have loop: "check_response_loop a dev t deadline h clock =
      (Inl (error_with_reply a response),
       h\<lparr>od_response_reads := Suc (od_response_reads h), current_command := None\<rparr>,
       clock + 1 / 100)"
    by (simp add: check_response_loop.simps it)
  show ?thesis
    unfolding loop
    by (auto simp: known_error_code [OF len] get_active_command_def map_add_def
             split: option.splits)
qed

theorem error_with_reply_reported_witness:
  "(\<exists>h' clock'.
      check_response_loop HrdStreaming (\<lambda>n. [3, 0, 2, 0, 0, 0, 0, 0]) 5 5 OsCmdHandler_init 0
        = (Inl (OsCommandException (ErrorCode 2 ''DURATION_VALUE_ERROR'')), h', clock')) \<and>
   (\<exists>h' clock'.
      check_response_loop EncoderRegisterCommunication (\<lambda>n. [3, 0, 252, 0, 0, 0, 0, 0]) 1 1
          OsCmdHandler_init 0
        = (Inl (OsCommandException (ErrorCode 252 ''CMD_ABORTED'')), h', clock')) \<and>
   (\<exists>h' clock'.
      check_response_loop EncoderRegisterCommunication (\<lambda>n. [3, 0, 7, 0, 0, 0, 0, 0]) 1 1
          OsCmdHandler_init 0
        = (Inl (Failed (UnknownErrorCode 7)), h', clock'))"
proof -
  have a: "map_of (OsCmdErrorCodes @ specific_error_codes HrdStreaming) 2 = Some ''DURATION_VALUE_ERROR''"
    by (simp add: OsCmdErrorCodes_def OsCmd3ErrorCodes_def)
  have b: "map_of (OsCmdErrorCodes @ specific_error_codes EncoderRegisterCommunication) 252
             = Some ''CMD_ABORTED''"
    by (simp add: OsCmdErrorCodes_def)
  have c: "map_of (OsCmdErrorCodes @ specific_error_codes EncoderRegisterCommunication) 7 = None"
    by (simp add: OsCmdErrorCodes_def)
  have st: "(3::int) = COMPLETED_WITHERROR_WITHREPLY" by (simp add: OsCmdStatus_defs)
  from error_with_reply_reported
         [of "\<lambda>n. [3, 0, 2, 0, 0, 0, 0, 0]" OsCmdHandler_init "[3, 0, 2, 0, 0, 0, 0, 0]"
             HrdStreaming 5 5 0] a st
  have 1: "\<exists>h' clock'.
      check_response_loop HrdStreaming (\<lambda>n. [3, 0, 2, 0, 0, 0, 0, 0]) 5 5 OsCmdHandler_init 0
        = (Inl (OsCommandException (ErrorCode 2 ''DURATION_VALUE_ERROR'')), h', clock')"
    by auto
  from error_with_reply_reported
         [of "\<lambda>n. [3, 0, 252, 0, 0, 0, 0, 0]" OsCmdHandler_init "[3, 0, 252, 0, 0, 0, 0, 0]"
             EncoderRegisterCommunication 1 1 0] b st
  have 2: "\<exists>h' clock'.
      check_response_loop EncoderRegisterCommunication (\<lambda>n. [3, 0, 252, 0, 0, 0, 0, 0]) 1 1
          OsCmdHandler_init 0
        = (Inl (OsCommandException (ErrorCode 252 ''CMD_ABORTED'')), h', clock')"
    by auto
  from error_with_reply_reported
         [of "\<lambda>n. [3, 0, 7, 0, 0, 0, 0, 0]" OsCmdHandler_init "[3, 0, 7, 0, 0, 0, 0, 0]"
             EncoderRegisterCommunication 1 1 0] c st
  have 3: "\<exists>h' clock'.
      check_response_loop EncoderRegisterCommunication (\<lambda>n. [3, 0, 7, 0, 0, 0, 0, 0]) 1 1
          OsCmdHandler_init 0
        = (Inl (Failed (UnknownErrorCode 7)), h', clock')"
    by auto
  from 1 2 3 show ?thesis by blast
qed


section \<open>Properties of the command and reply encodings\<close>

lemma push_drop_masked:
  fixes v :: int
  shows "push_bit k (drop_bit k (v AND push_bit k m)) = v AND push_bit k m"
  by (rule bit_eqI) (auto simp: bit_simps)

lemma byte_masks:
  "(0xFF000000 :: int) = push_bit 24 0xFF" "(0xFF0000 :: int) = push_bit 16 0xFF"
  "(0xFF00 :: int) = push_bit 8 0xFF"
  by (simp_all add: push_bit_eq_mult)

lemma byte_masks_or: "(0xFF000000 :: int) OR 0xFF0000 OR 0xFF00 OR 0xFF = mask 32"
  by (simp add: mask_eq_exp_minus_1)

lemma big_endian_32:
  fixes v :: int
  assumes "0 \<le> v" "v < 2 ^ 32"
  shows "push_bit 24 (drop_bit 24 (v AND 0xFF000000)) OR push_bit 16 (drop_bit 16 (v AND 0xFF0000))
         OR push_bit 8 (drop_bit 8 (v AND 0xFF00)) OR (v AND 0xFF) = v"
proof -
  have tb: "take_bit 32 v = v" using assms by (simp add: take_bit_int_eq_self)
  have "push_bit 24 (drop_bit 24 (v AND 0xFF000000)) OR push_bit 16 (drop_bit 16 (v AND 0xFF0000))
         OR push_bit 8 (drop_bit 8 (v AND 0xFF00)) OR (v AND 0xFF)
       = (v AND 0xFF000000) OR (v AND 0xFF0000) OR (v AND 0xFF00) OR (v AND 0xFF)"
    unfolding byte_masks push_drop_masked ..
  also have "\<dots> = v AND (0xFF000000 OR 0xFF0000 OR 0xFF00 OR 0xFF)"
    by (simp only: bit.conj_disj_distrib)
  also have "\<dots> = take_bit 32 v"
    by (simp only: byte_masks_or take_bit_eq_mask)
  finally show ?thesis using tb by simp
qed

lemma command_bytes:
  fixes v :: int
  shows "is_byte (v AND 0xFF)" "is_byte (drop_bit 8 (v AND 0xFF00))"
        "is_byte (drop_bit 16 (v AND 0xFF0000))" "is_byte (drop_bit 24 (v AND 0xFF000000))"
proof -
  have a: "drop_bit k (v AND push_bit k 0xFF) = drop_bit k v AND 0xFF" for k
    by (rule bit_eqI) (auto simp: bit_simps)
  have b: "0 \<le> w AND 0xFF \<and> w AND 0xFF < 256" for w :: int
    using AND_upper2' [of 255 255 w] by (simp add: and.commute)
  show "is_byte (v AND 0xFF)" using b by (simp add: is_byte_def)
  show "is_byte (drop_bit 8 (v AND 0xFF00))"
    unfolding byte_masks a using b by (simp add: is_byte_def)
  show "is_byte (drop_bit 16 (v AND 0xFF0000))"
    unfolding byte_masks a using b by (simp add: is_byte_def)
  show "is_byte (drop_bit 24 (v AND 0xFF000000))"
    unfolding byte_masks a using b by (simp add: is_byte_def)
qed

text \<open>
  C7. For every value \<open>v\<close> with \<open>0 \<le> v < 2^32\<close> and every parameter selector, a reply whose
  bytes 2 to 5 are bytes 2 to 5 of the open-loop field-mode command for \<open>v\<close> decodes,
  with the four-byte rule of the measurement adapters
  (\<open>response[2] << 24 | response[3] << 16 | response[4] << 8 | response[5]\<close>), to \<open>v\<close>.
  The command consists of bytes, so \<open>execute_command\<close> sends it.
\<close>

theorem field_mode_value_roundtrip:
  "0 \<le> v \<Longrightarrow> v < 2 ^ 32 \<Longrightarrow>
   decode_reply PhaseResistanceMeasurement
     (status # sub # drop 2 (open_loop_field_mode_command b1 v)) = Inr (ReplyInt v) \<and>
   (is_byte b1 \<longrightarrow> bytes_ok (open_loop_field_mode_command b1 v))"
  using big_endian_32 [of v] command_bytes [of v]
  by (simp add: open_loop_field_mode_command_def reply_32_def item_def bytes_ok_def Let_def
                is_byte_def)

theorem field_mode_value_roundtrip_witness:
  "(0::int) \<le> 305419896 \<and> (305419896::int) < 2 ^ 32 \<and>
   open_loop_field_mode_command 0 305419896 = [2, 0, 0x12, 0x34, 0x56, 0x78, 0, 0] \<and>
   decode_reply PhaseResistanceMeasurement [1, 0, 0x12, 0x34, 0x56, 0x78, 0, 0] = Inr (ReplyInt 305419896)"
proof -
  have c: "open_loop_field_mode_command 0 305419896 = [2, 0, 0x12, 0x34, 0x56, 0x78, 0, 0]"
    by (simp add: open_loop_field_mode_command_def Let_def drop_bit_eq_div)
  have "decode_reply PhaseResistanceMeasurement
     (1 # 0 # drop 2 (open_loop_field_mode_command 0 305419896)) = Inr (ReplyInt 305419896)"
    using field_mode_value_roundtrip [of 305419896 1 0 0] by simp
  with c show ?thesis by simp
qed

section \<open>Properties of the toolbox and of the supervisors' configuration\<close>

text \<open>
  C10. \<open>get_si_unit_scaling_factor\<close> returns 1, 10, 100 and 1000 for the coded SI-prefix
  values 11814656, 4290004736, 4273227520 and 4256450304, and \<open>None\<close> for every other coded
  value; a velocity or position supervisor whose construction succeeds on a device
  reporting such a value has \<open>None\<close> as its scaling factor.
\<close>

theorem si_unit_scaling_factor_known_codes:
  "(si_unit_velocity od = 11814656 \<longrightarrow> get_si_unit_scaling_factor od = Some 1) \<and>
   (si_unit_velocity od = 4290004736 \<longrightarrow> get_si_unit_scaling_factor od = Some 10) \<and>
   (si_unit_velocity od = 4273227520 \<longrightarrow> get_si_unit_scaling_factor od = Some 100) \<and>
   (si_unit_velocity od = 4256450304 \<longrightarrow> get_si_unit_scaling_factor od = Some 1000) \<and>
   (si_unit_velocity od \<notin> {11814656, 4290004736, 4273227520, 4256450304} \<longrightarrow>
      get_si_unit_scaling_factor od = None \<and>
      (\<forall>h. VelocityProfileHandler_init od = Inr h \<longrightarrow> v_si_unit_scaling_factor h = None) \<and>
      (\<forall>h. ProfilePositionHandler_init od = Inr h \<longrightarrow> pp_si_unit_scaling_factor h = None))"
  by (auto simp: get_si_unit_scaling_factor_def VelocityProfileHandler_init_def
                 ProfilePositionHandler_init_def Let_def split: sum.splits)

lemma bench_sensor:
  "first_sensor_with
      \<lparr>si_unit_velocity = c, gear_ratio_motor_revolutions = 1, gear_ratio_shaft_revolutions = 1,
       feedback_sensor_ports_subindex = 1, feedback_sensor_ports = (\<lambda>i. if i = 1 then 8464 else 0),
       parameter = (\<lambda>i s. 1)\<rparr> (1 # fs) [0 .. 1 - 1] = Some 8464"
  by (simp add: upto.simps)

theorem si_unit_scaling_factor_known_codes_witness:
  "get_si_unit_scaling_factor
      \<lparr>si_unit_velocity = 4290004736, gear_ratio_motor_revolutions = 1,
       gear_ratio_shaft_revolutions = 1, feedback_sensor_ports_subindex = 1,
       feedback_sensor_ports = (\<lambda>i. if i = 1 then 8464 else 0), parameter = (\<lambda>i s. 1)\<rparr> = Some 10 \<and>
   (\<exists>h. VelocityProfileHandler_init
      \<lparr>si_unit_velocity = 0, gear_ratio_motor_revolutions = 1,
       gear_ratio_shaft_revolutions = 1, feedback_sensor_ports_subindex = 1,
       feedback_sensor_ports = (\<lambda>i. if i = 1 then 8464 else 0), parameter = (\<lambda>i s. 1)\<rparr> = Inr h \<and>
      v_si_unit_scaling_factor h = None)"
proof -
  let ?od = "\<lambda>c. \<lparr>si_unit_velocity = c, gear_ratio_motor_revolutions = 1,
       gear_ratio_shaft_revolutions = 1, feedback_sensor_ports_subindex = 1,
       feedback_sensor_ports = (\<lambda>i. if i = 1 then 8464 else 0), parameter = (\<lambda>i s. 1)\<rparr>"
  have 1: "get_si_unit_scaling_factor (?od 4290004736) = Some 10"
    using si_unit_scaling_factor_known_codes [of "?od 4290004736"] by simp
  have "\<exists>h. VelocityProfileHandler_init (?od 0) = Inr h"
    using bench_sensor [of 0]
    by (simp add: VelocityProfileHandler_init_def get_tachometer_ratio_def get_gear_ratio_def
                  get_gearbox_ratio_def get_motion_encoder_config_index_def
                  get_commutation_encoder_config_index_def SensorFunctions_defs Let_def)
  then obtain h where h: "VelocityProfileHandler_init (?od 0) = Inr h" ..
  with si_unit_scaling_factor_known_codes [of "?od 0"]
  have "v_si_unit_scaling_factor h = None" by simp
  with 1 h show ?thesis by blast
qed

text \<open>Multiplying by the factor 1 changes nothing; with the identity as rounding, products are exact.\<close>

lemma py_mul_one: "py_mul rnd a 1 = a"
  by (simp add: py_mul_def)

lemma py_mul_exact: "py_mul (\<lambda>x. x) a b = a * b"
  by (simp add: py_mul_def)

text \<open>
  C4. After \<open>set_profiler_configuration\<close> of the position supervisor with a non-zero gear
  ratio, the conversion factor is 1 for the position-control frame, \<open>1 / gear_ratio\<close> for
  the motor-shaft frame, \<open>gearbox_ratio / gear_ratio\<close> for the drive-shaft frame and
  \<open>tachometer_ratio / gear_ratio\<close> for the velocity-control frame. After
  \<open>set_profiler_configuration\<close> of the velocity supervisor with a non-zero tachometer
  ratio, it is 1 for the velocity-control frame, \<open>1 / tachometer_ratio\<close> for the
  motor-shaft frame, \<open>gearbox_ratio / tachometer_ratio\<close> for the drive-shaft frame and
  \<open>gear_ratio / tachometer_ratio\<close> for the position-control frame. Each quotient is the
  one Python's \<open>/\<close> returns: the exact quotient rounded to a double by \<open>rnd\<close>, for every
  rounding \<open>rnd\<close>; with exact arithmetic it is the quotient itself. For the
  position-control frame the position supervisor, whatever the ratios, has factor 1 and
  stores acceleration, deceleration and maximum velocity as they were given.
\<close>

theorem conversion_factor_selection:
  "(pp_gear_ratio_factor p \<noteq> 0 \<longrightarrow>
      pp_configured_frame_to_position_control_frame
          (snd (pp_set_profiler_configuration rnd frame acceleration deceleration max_velocity
                  tolerance profiler_timeout stabilization_duration p)) =
        (case frame of
           POSITION_CONTROL_FRAME \<Rightarrow> 1
         | MOTOR_SHAFT_FRAME \<Rightarrow> rnd (1 / of_int (pp_gear_ratio_factor p))
         | DRIVE_SHAFT_FRAME \<Rightarrow> rnd (of_int (pp_gearbox_ratio p) / of_int (pp_gear_ratio_factor p))
         | VELOCITY_CONTROL_FRAME \<Rightarrow>
             rnd (of_int (pp_tachometer_ratio_factor p) / of_int (pp_gear_ratio_factor p)))) \<and>
   (v_tachometer_ratio_factor v \<noteq> 0 \<longrightarrow>
      v_configured_frame_to_velocity_control_frame
          (snd (v_set_profiler_configuration rnd frame acceleration deceleration target_tolerance
                  profiler_timeout stabilization_duration v)) =
        (case frame of
           VELOCITY_CONTROL_FRAME \<Rightarrow> 1
         | MOTOR_SHAFT_FRAME \<Rightarrow> rnd (1 / of_int (v_tachometer_ratio_factor v))
         | DRIVE_SHAFT_FRAME \<Rightarrow> rnd (of_int (v_gearbox_ratio v) / of_int (v_tachometer_ratio_factor v))
         | POSITION_CONTROL_FRAME \<Rightarrow>
             rnd (of_int (v_gear_ratio_factor v) / of_int (v_tachometer_ratio_factor v)))) \<and>
   (frame = POSITION_CONTROL_FRAME \<longrightarrow>
      (let p' = snd (pp_set_profiler_configuration rnd frame acceleration deceleration max_velocity
                       tolerance profiler_timeout stabilization_duration p)
       in pp_configured_frame_to_position_control_frame p' = 1 \<and>
          pp_acceleration p' = acceleration \<and> pp_deceleration p' = deceleration \<and>
          pp_max_velocity p' = max_velocity))"
  by (cases frame)
     (simp_all add: pp_set_profiler_configuration_def v_set_profiler_configuration_def
                    truediv_def py_mul_one Let_def split: option.splits)

text \<open>
  An instance with gear ratio 8 and tachometer ratio 2: the quotients \<open>1 / 8\<close> and \<open>1 / 2\<close>
  are doubles, so no rounding changes them.
\<close>

theorem conversion_factor_selection_witness:
  "pp_configured_frame_to_position_control_frame
      (snd (pp_set_profiler_configuration (\<lambda>x. x) MOTOR_SHAFT_FRAME 100 100 50 None None None
        \<lparr>pp_si_unit_scaling_factor = Some 10, pp_tachometer_ratio_factor = 1,
         pp_gear_ratio_factor = 8, pp_gearbox_ratio = 8,
         pp_acceleration = 0, pp_deceleration = 0, pp_max_velocity = 0,
         pp_target_tolerance = 30, pp_profiler_timeout = 20,
         pp_stabilization_duration = 2, pp_stabilization_time = None,
         pp_target_position = None, pp_configured_frame = None,
         pp_configured_frame_to_position_control_frame = 0, pp_calls = []\<rparr>)) = 1 / 8 \<and>
   v_configured_frame_to_velocity_control_frame
      (snd (v_set_profiler_configuration (\<lambda>x. x) MOTOR_SHAFT_FRAME 100 100 5 None None
        \<lparr>v_si_unit_scaling_factor = Some 10, v_tachometer_ratio_factor = 2,
         v_gear_ratio_factor = 1, v_gearbox_ratio = 2,
         v_acceleration = 0, v_deceleration = 0, v_target_tolerance = 0,
         v_profiler_timeout = 20, v_stabilization_duration = 2,
         v_stabilization_time = None, v_target_velocity = 0,
         v_configured_frame = None, v_configured_frame_to_velocity_control_frame = 0,
         v_calls = []\<rparr>)) = 1 / 2 \<and>
   pp_acceleration
      (snd (pp_set_profiler_configuration (\<lambda>x. x) POSITION_CONTROL_FRAME 100 100 50 None None None
        \<lparr>pp_si_unit_scaling_factor = Some 10, pp_tachometer_ratio_factor = 1,
         pp_gear_ratio_factor = 8, pp_gearbox_ratio = 8,
         pp_acceleration = 0, pp_deceleration = 0, pp_max_velocity = 0,
         pp_target_tolerance = 30, pp_profiler_timeout = 20,
         pp_stabilization_duration = 2, pp_stabilization_time = None,
         pp_target_position = None, pp_configured_frame = None,
         pp_configured_frame_to_position_control_frame = 0, pp_calls = []\<rparr>)) = 100"
proof -
  let ?p = "\<lparr>pp_si_unit_scaling_factor = Some 10, pp_tachometer_ratio_factor = 1,
         pp_gear_ratio_factor = 8, pp_gearbox_ratio = 8,
         pp_acceleration = 0, pp_deceleration = 0, pp_max_velocity = 0,
         pp_target_tolerance = 30, pp_profiler_timeout = 20,
         pp_stabilization_duration = 2, pp_stabilization_time = None,
         pp_target_position = None, pp_configured_frame = None,
         pp_configured_frame_to_position_control_frame = 0, pp_calls = []\<rparr>"
  let ?v = "\<lparr>v_si_unit_scaling_factor = Some 10, v_tachometer_ratio_factor = 2,
         v_gear_ratio_factor = 1, v_gearbox_ratio = 2,
         v_acceleration = 0, v_deceleration = 0, v_target_tolerance = 0,
         v_profiler_timeout = 20, v_stabilization_duration = 2,
         v_stabilization_time = None, v_target_velocity = 0,
         v_configured_frame = None, v_configured_frame_to_velocity_control_frame = 0,
         v_calls = []\<rparr>"
  have 1: "pp_configured_frame_to_position_control_frame
      (snd (pp_set_profiler_configuration (\<lambda>x. x) MOTOR_SHAFT_FRAME 100 100 50 None None None ?p)) = 1 / 8"
    using conversion_factor_selection
            [where p = ?p and v = ?v and rnd = "\<lambda>x. x" and frame = MOTOR_SHAFT_FRAME
               and acceleration = 100 and deceleration = 100 and max_velocity = 50
               and target_tolerance = 5 and tolerance = None and profiler_timeout = None
               and stabilization_duration = None]
    by simp
  have 2: "v_configured_frame_to_velocity_control_frame
      (snd (v_set_profiler_configuration (\<lambda>x. x) MOTOR_SHAFT_FRAME 100 100 5 None None ?v)) = 1 / 2"
    using conversion_factor_selection
            [where p = ?p and v = ?v and rnd = "\<lambda>x. x" and frame = MOTOR_SHAFT_FRAME
               and acceleration = 100 and deceleration = 100 and max_velocity = 50
               and target_tolerance = 5 and tolerance = None and profiler_timeout = None
               and stabilization_duration = None]
    by simp
  have 3: "pp_acceleration
      (snd (pp_set_profiler_configuration (\<lambda>x. x) POSITION_CONTROL_FRAME 100 100 50 None None None ?p)) = 100"
    using conversion_factor_selection
            [where p = ?p and v = ?v and rnd = "\<lambda>x. x" and frame = POSITION_CONTROL_FRAME
               and acceleration = 100 and deceleration = 100 and max_velocity = 50
               and target_tolerance = 5 and tolerance = None and profiler_timeout = None
               and stabilization_duration = None]
    by (simp add: Let_def)
  from 1 2 3 show ?thesis by blast
qed

lemma v_set_profiler_configuration_effects:
  assumes "v_si_unit_scaling_factor v = Some si"
      and "v_tachometer_ratio_factor v \<noteq> 0 \<or> frame = VELOCITY_CONTROL_FRAME"
  shows "\<exists>v'. v_set_profiler_configuration rnd frame acceleration deceleration target_tolerance
                 profiler_timeout stabilization_duration v = (Inr (), v') \<and>
           v_configured_frame_to_velocity_control_frame v' =
             (case frame of
                VELOCITY_CONTROL_FRAME \<Rightarrow> 1
              | MOTOR_SHAFT_FRAME \<Rightarrow> rnd (1 / of_int (v_tachometer_ratio_factor v))
              | DRIVE_SHAFT_FRAME \<Rightarrow> rnd (of_int (v_gearbox_ratio v) / of_int (v_tachometer_ratio_factor v))
              | POSITION_CONTROL_FRAME \<Rightarrow>
                  rnd (of_int (v_gear_ratio_factor v) / of_int (v_tachometer_ratio_factor v))) \<and>
           v_acceleration v' = py_mul rnd acceleration (v_configured_frame_to_velocity_control_frame v') \<and>
           v_deceleration v' = py_mul rnd deceleration (v_configured_frame_to_velocity_control_frame v') \<and>
           v_target_tolerance v' = py_mul rnd target_tolerance (v_configured_frame_to_velocity_control_frame v') \<and>
           v_target_velocity v' = 0 \<and>
           v_calls v' = v_calls v @
             [od_profile_acceleration (py_int (py_mul rnd (v_acceleration v') (of_int si))),
              od_profile_deceleration (py_int (py_mul rnd (v_deceleration v') (of_int si))),
              od_target_velocity 0]"
  using assms
  by (cases frame)
     (auto simp: v_set_profiler_configuration_def truediv_def py_mul_one Let_def split: option.splits)

lemma pp_set_profiler_configuration_effects:
  assumes "pp_si_unit_scaling_factor p = Some si"
      and "pp_gear_ratio_factor p \<noteq> 0 \<or> frame = POSITION_CONTROL_FRAME"
  shows "\<exists>p'. pp_set_profiler_configuration rnd frame acceleration deceleration max_velocity
                 tolerance profiler_timeout stabilization_duration p = (Inr (), p') \<and>
           pp_configured_frame_to_position_control_frame p' =
             (case frame of
                POSITION_CONTROL_FRAME \<Rightarrow> 1
              | MOTOR_SHAFT_FRAME \<Rightarrow> rnd (1 / of_int (pp_gear_ratio_factor p))
              | DRIVE_SHAFT_FRAME \<Rightarrow> rnd (of_int (pp_gearbox_ratio p) / of_int (pp_gear_ratio_factor p))
              | VELOCITY_CONTROL_FRAME \<Rightarrow>
                  rnd (of_int (pp_tachometer_ratio_factor p) / of_int (pp_gear_ratio_factor p))) \<and>
           pp_acceleration p' = py_mul rnd acceleration (pp_configured_frame_to_position_control_frame p') \<and>
           pp_deceleration p' = py_mul rnd deceleration (pp_configured_frame_to_position_control_frame p') \<and>
           pp_max_velocity p' = py_mul rnd max_velocity (pp_configured_frame_to_position_control_frame p') \<and>
           pp_target_position p' = pp_target_position p \<and>
           pp_calls p' = pp_calls p @
             [od_profile_acceleration (py_int (py_mul rnd (pp_acceleration p') (of_int si))),
              od_profile_deceleration (py_int (py_mul rnd (pp_deceleration p') (of_int si))),
              od_profile_velocity (py_int (py_mul rnd (pp_max_velocity p') (of_int si)))]"
  using assms
  by (cases frame)
     (auto simp: pp_set_profiler_configuration_def truediv_def py_mul_one Let_def split: option.splits)

lemma tq_set_profiler_configuration_effects:
  "tq_torque_slope (tq_set_profiler_configuration torque_slope tolerance pt sd t) = torque_slope \<and>
   tq_target_tolerance (tq_set_profiler_configuration torque_slope tolerance pt sd t) = tolerance \<and>
   tq_target_torque (tq_set_profiler_configuration torque_slope tolerance pt sd t) = tq_target_torque t \<and>
   tq_calls (tq_set_profiler_configuration torque_slope tolerance pt sd t)
     = tq_calls t @ [od_torque_slope torque_slope]"
  by (simp add: tq_set_profiler_configuration_def Let_def split: option.splits)

text \<open>
  The same configurations with the rounding of the code's doubles. With tachometer (or
  gear) ratio 50, the motor-shaft frame, acceleration 58, deceleration 116 and SI factor
  100, \<open>58 * (1 / 50) * 100\<close> is \<open>115.99999999999999\<close> in doubles and the device receives
  115 and, for 116, 231; \<open>set_target_velocity(49)\<close> with ratio 49 stores
  \<open>int(0.9999999999999999) = 0\<close>.
\<close>

lemma doubles_50:
  "py_int (py_mul binary64 (py_mul binary64 58 (binary64 (1 / 50))) 100) = 115"
  "py_int (py_mul binary64 (py_mul binary64 116 (binary64 (1 / 50))) 100) = 231"
  "py_int (py_mul binary64 (py_mul binary64 49 (binary64 (1 / 50))) 100) = 98"
  "py_int (py_mul binary64 49 (binary64 (1 / 49))) = 0"
  by code_simp+

lemma velocity_configuration_in_doubles:
  "v_calls (snd (v_set_profiler_configuration binary64 MOTOR_SHAFT_FRAME 58 116 5 None None
        \<lparr>v_si_unit_scaling_factor = Some 100, v_tachometer_ratio_factor = 50,
         v_gear_ratio_factor = 1, v_gearbox_ratio = 50,
         v_acceleration = 0, v_deceleration = 0, v_target_tolerance = 0,
         v_profiler_timeout = 20, v_stabilization_duration = 2,
         v_stabilization_time = None, v_target_velocity = 0,
         v_configured_frame = None, v_configured_frame_to_velocity_control_frame = 0,
         v_calls = []\<rparr>))
     = [od_profile_acceleration 115, od_profile_deceleration 231, od_target_velocity 0]"
  by (simp add: v_set_profiler_configuration_def truediv_def Let_def doubles_50)

lemma position_configuration_in_doubles:
  "pp_calls (snd (pp_set_profiler_configuration binary64 MOTOR_SHAFT_FRAME 58 116 49 None None None
        \<lparr>pp_si_unit_scaling_factor = Some 100, pp_tachometer_ratio_factor = 1,
         pp_gear_ratio_factor = 50, pp_gearbox_ratio = 50,
         pp_acceleration = 0, pp_deceleration = 0, pp_max_velocity = 0,
         pp_target_tolerance = 30, pp_profiler_timeout = 20,
         pp_stabilization_duration = 2, pp_stabilization_time = None,
         pp_target_position = None, pp_configured_frame = None,
         pp_configured_frame_to_position_control_frame = 0, pp_calls = []\<rparr>))
     = [od_profile_acceleration 115, od_profile_deceleration 231, od_profile_velocity 98]"
  by (simp add: pp_set_profiler_configuration_def truediv_def Let_def doubles_50)

lemma set_target_velocity_in_doubles:
  "v_target_velocity (snd (set_target_velocity binary64 49 0
        \<lparr>v_si_unit_scaling_factor = Some 1, v_tachometer_ratio_factor = 49,
         v_gear_ratio_factor = 1, v_gearbox_ratio = 49,
         v_acceleration = 0, v_deceleration = 0, v_target_tolerance = 0,
         v_profiler_timeout = 20, v_stabilization_duration = 2,
         v_stabilization_time = None, v_target_velocity = 0,
         v_configured_frame = Some MOTOR_SHAFT_FRAME,
         v_configured_frame_to_velocity_control_frame = binary64 (1 / 49),
         v_calls = []\<rparr>)) = 0"
  by (simp add: set_target_velocity_def Let_def doubles_50)

text \<open>
  C5, as stated, fails: \<open>set_profiler_configuration\<close> of the torque supervisor after
  \<open>set_target_torque(7)\<close> leaves the target torque at 7 and writes only the torque slope,
  and \<open>set_profiler_configuration\<close> of the position supervisor leaves the target position
  (here 4000) as it was and writes only acceleration, deceleration and velocity. The
  products at this input are integers (1000, 1000, 500), which no rounding changes.
\<close>

theorem set_profiler_configuration_target_counterexample:
  "tq_target_torque
     (tq_set_profiler_configuration 5 1 None None (set_target_torque 7 TorqueProfileHandler_init)) = 7 \<and>
   tq_calls
     (tq_set_profiler_configuration 5 1 None None (set_target_torque 7 TorqueProfileHandler_init))
     = [od_target_torque 7, od_torque_slope 5] \<and>
   pp_set_profiler_configuration (\<lambda>x. x) POSITION_CONTROL_FRAME 100 100 50 None None None
        \<lparr>pp_si_unit_scaling_factor = Some 10, pp_tachometer_ratio_factor = 1,
         pp_gear_ratio_factor = 8, pp_gearbox_ratio = 8,
         pp_acceleration = 0, pp_deceleration = 0, pp_max_velocity = 0,
         pp_target_tolerance = 30, pp_profiler_timeout = 20,
         pp_stabilization_duration = 2, pp_stabilization_time = None,
         pp_target_position = Some 4000, pp_configured_frame = None,
         pp_configured_frame_to_position_control_frame = 0, pp_calls = []\<rparr>
     = (Inr (),
        \<lparr>pp_si_unit_scaling_factor = Some 10, pp_tachometer_ratio_factor = 1,
         pp_gear_ratio_factor = 8, pp_gearbox_ratio = 8,
         pp_acceleration = 100, pp_deceleration = 100, pp_max_velocity = 50,
         pp_target_tolerance = 30, pp_profiler_timeout = 20,
         pp_stabilization_duration = 2, pp_stabilization_time = None,
         pp_target_position = Some 4000, pp_configured_frame = Some POSITION_CONTROL_FRAME,
         pp_configured_frame_to_position_control_frame = 1,
         pp_calls = [od_profile_acceleration 1000, od_profile_deceleration 1000,
                     od_profile_velocity 500]\<rparr>)"
  by (simp add: tq_set_profiler_configuration_def set_target_torque_def TorqueProfileHandler_init_def
                pp_set_profiler_configuration_def py_int_def py_mul_exact Let_def)


text \<open>
  C5, amended. For a supervisor with a scaling factor and a non-zero divisor ratio (or
  the identity frame), and for every rounding \<open>rnd\<close> of the float operations:
  \<open>set_profiler_configuration\<close> of the velocity supervisor succeeds, stores the products
  of acceleration, deceleration and tolerance with the frame factor, writes
  \<open>int(acceleration * si)\<close> and \<open>int(deceleration * si)\<close> of the stored values, each product
  as Python computes it and then truncated, sets the target velocity to zero and writes
  it; that of the position supervisor succeeds, stores the products of acceleration,
  deceleration and maximum velocity with the frame factor, writes the three in the same
  way, and leaves the target position as it was, writing no target; that of the torque
  supervisor stores the torque slope unconverted, writes it, stores the tolerance, and
  leaves the target torque as it was, writing no target.
\<close>

theorem set_profiler_configuration_effects:
  "(v_si_unit_scaling_factor v = Some si \<and>
    (v_tachometer_ratio_factor v \<noteq> 0 \<or> frame = VELOCITY_CONTROL_FRAME) \<longrightarrow>
      (\<exists>v'. v_set_profiler_configuration rnd frame acceleration deceleration target_tolerance
                 profiler_timeout stabilization_duration v = (Inr (), v') \<and>
           v_configured_frame_to_velocity_control_frame v' =
             (case frame of
                VELOCITY_CONTROL_FRAME \<Rightarrow> 1
              | MOTOR_SHAFT_FRAME \<Rightarrow> rnd (1 / of_int (v_tachometer_ratio_factor v))
              | DRIVE_SHAFT_FRAME \<Rightarrow> rnd (of_int (v_gearbox_ratio v) / of_int (v_tachometer_ratio_factor v))
              | POSITION_CONTROL_FRAME \<Rightarrow>
                  rnd (of_int (v_gear_ratio_factor v) / of_int (v_tachometer_ratio_factor v))) \<and>
           v_acceleration v' = py_mul rnd acceleration (v_configured_frame_to_velocity_control_frame v') \<and>
           v_deceleration v' = py_mul rnd deceleration (v_configured_frame_to_velocity_control_frame v') \<and>
           v_target_tolerance v' = py_mul rnd target_tolerance (v_configured_frame_to_velocity_control_frame v') \<and>
           v_target_velocity v' = 0 \<and>
           v_calls v' = v_calls v @
             [od_profile_acceleration (py_int (py_mul rnd (v_acceleration v') (of_int si))),
              od_profile_deceleration (py_int (py_mul rnd (v_deceleration v') (of_int si))),
              od_target_velocity 0])) \<and>
   (pp_si_unit_scaling_factor p = Some si \<and>
    (pp_gear_ratio_factor p \<noteq> 0 \<or> frame = POSITION_CONTROL_FRAME) \<longrightarrow>
      (\<exists>p'. pp_set_profiler_configuration rnd frame acceleration deceleration max_velocity
                 tolerance profiler_timeout stabilization_duration p = (Inr (), p') \<and>
           pp_configured_frame_to_position_control_frame p' =
             (case frame of
                POSITION_CONTROL_FRAME \<Rightarrow> 1
              | MOTOR_SHAFT_FRAME \<Rightarrow> rnd (1 / of_int (pp_gear_ratio_factor p))
              | DRIVE_SHAFT_FRAME \<Rightarrow> rnd (of_int (pp_gearbox_ratio p) / of_int (pp_gear_ratio_factor p))
              | VELOCITY_CONTROL_FRAME \<Rightarrow>
                  rnd (of_int (pp_tachometer_ratio_factor p) / of_int (pp_gear_ratio_factor p))) \<and>
           pp_acceleration p' = py_mul rnd acceleration (pp_configured_frame_to_position_control_frame p') \<and>
           pp_deceleration p' = py_mul rnd deceleration (pp_configured_frame_to_position_control_frame p') \<and>
           pp_max_velocity p' = py_mul rnd max_velocity (pp_configured_frame_to_position_control_frame p') \<and>
           pp_target_position p' = pp_target_position p \<and>
           pp_calls p' = pp_calls p @
             [od_profile_acceleration (py_int (py_mul rnd (pp_acceleration p') (of_int si))),
              od_profile_deceleration (py_int (py_mul rnd (pp_deceleration p') (of_int si))),
              od_profile_velocity (py_int (py_mul rnd (pp_max_velocity p') (of_int si)))])) \<and>
   tq_torque_slope (tq_set_profiler_configuration torque_slope tolerance_tq pt sd t) = torque_slope \<and>
   tq_target_tolerance (tq_set_profiler_configuration torque_slope tolerance_tq pt sd t) = tolerance_tq \<and>
   tq_target_torque (tq_set_profiler_configuration torque_slope tolerance_tq pt sd t)
     = tq_target_torque t \<and>
   tq_calls (tq_set_profiler_configuration torque_slope tolerance_tq pt sd t)
     = tq_calls t @ [od_torque_slope torque_slope]"
proof (intro conjI impI)
  assume "v_si_unit_scaling_factor v = Some si \<and>
    (v_tachometer_ratio_factor v \<noteq> 0 \<or> frame = VELOCITY_CONTROL_FRAME)"
  then show "\<exists>v'. v_set_profiler_configuration rnd frame acceleration deceleration target_tolerance
                 profiler_timeout stabilization_duration v = (Inr (), v') \<and>
           v_configured_frame_to_velocity_control_frame v' =
             (case frame of
                VELOCITY_CONTROL_FRAME \<Rightarrow> 1
              | MOTOR_SHAFT_FRAME \<Rightarrow> rnd (1 / of_int (v_tachometer_ratio_factor v))
              | DRIVE_SHAFT_FRAME \<Rightarrow> rnd (of_int (v_gearbox_ratio v) / of_int (v_tachometer_ratio_factor v))
              | POSITION_CONTROL_FRAME \<Rightarrow>
                  rnd (of_int (v_gear_ratio_factor v) / of_int (v_tachometer_ratio_factor v))) \<and>
           v_acceleration v' = py_mul rnd acceleration (v_configured_frame_to_velocity_control_frame v') \<and>
           v_deceleration v' = py_mul rnd deceleration (v_configured_frame_to_velocity_control_frame v') \<and>
           v_target_tolerance v' = py_mul rnd target_tolerance (v_configured_frame_to_velocity_control_frame v') \<and>
           v_target_velocity v' = 0 \<and>
           v_calls v' = v_calls v @
             [od_profile_acceleration (py_int (py_mul rnd (v_acceleration v') (of_int si))),
              od_profile_deceleration (py_int (py_mul rnd (v_deceleration v') (of_int si))),
              od_target_velocity 0]"
    using v_set_profiler_configuration_effects by blast
next
  assume "pp_si_unit_scaling_factor p = Some si \<and>
    (pp_gear_ratio_factor p \<noteq> 0 \<or> frame = POSITION_CONTROL_FRAME)"
  then show "\<exists>p'. pp_set_profiler_configuration rnd frame acceleration deceleration max_velocity
                 tolerance profiler_timeout stabilization_duration p = (Inr (), p') \<and>
           pp_configured_frame_to_position_control_frame p' =
             (case frame of
                POSITION_CONTROL_FRAME \<Rightarrow> 1
              | MOTOR_SHAFT_FRAME \<Rightarrow> rnd (1 / of_int (pp_gear_ratio_factor p))
              | DRIVE_SHAFT_FRAME \<Rightarrow> rnd (of_int (pp_gearbox_ratio p) / of_int (pp_gear_ratio_factor p))
              | VELOCITY_CONTROL_FRAME \<Rightarrow>
                  rnd (of_int (pp_tachometer_ratio_factor p) / of_int (pp_gear_ratio_factor p))) \<and>
           pp_acceleration p' = py_mul rnd acceleration (pp_configured_frame_to_position_control_frame p') \<and>
           pp_deceleration p' = py_mul rnd deceleration (pp_configured_frame_to_position_control_frame p') \<and>
           pp_max_velocity p' = py_mul rnd max_velocity (pp_configured_frame_to_position_control_frame p') \<and>
           pp_target_position p' = pp_target_position p \<and>
           pp_calls p' = pp_calls p @
             [od_profile_acceleration (py_int (py_mul rnd (pp_acceleration p') (of_int si))),
              od_profile_deceleration (py_int (py_mul rnd (pp_deceleration p') (of_int si))),
              od_profile_velocity (py_int (py_mul rnd (pp_max_velocity p') (of_int si)))]"
    using pp_set_profiler_configuration_effects by blast
qed (simp_all add: tq_set_profiler_configuration_effects)

text \<open>
  An instance with tachometer ratio 2 and gear ratio 8, motor-shaft frame and SI factor
  10: every quotient and product (\<open>0.5\<close>, \<open>50\<close>, \<open>100\<close>, \<open>2.5\<close>, \<open>500\<close>, \<open>1000\<close>; \<open>0.125\<close>,
  \<open>12.5\<close>, \<open>25\<close>, \<open>6.25\<close>, \<open>125\<close>, \<open>250\<close>, \<open>62.5\<close>) is a double, so no rounding changes
  them.
\<close>

theorem set_profiler_configuration_effects_witness:
  "(\<exists>v'. v_set_profiler_configuration (\<lambda>x. x) MOTOR_SHAFT_FRAME 100 200 5 None None
        \<lparr>v_si_unit_scaling_factor = Some 10, v_tachometer_ratio_factor = 2,
         v_gear_ratio_factor = 1, v_gearbox_ratio = 2,
         v_acceleration = 0, v_deceleration = 0, v_target_tolerance = 0,
         v_profiler_timeout = 20, v_stabilization_duration = 2,
         v_stabilization_time = None, v_target_velocity = 60,
         v_configured_frame = None, v_configured_frame_to_velocity_control_frame = 0,
         v_calls = []\<rparr> = (Inr (), v') \<and>
      v_acceleration v' = 50 \<and> v_deceleration v' = 100 \<and> v_target_tolerance v' = 5 / 2 \<and>
      v_target_velocity v' = 0 \<and>
      v_calls v' = [od_profile_acceleration 500, od_profile_deceleration 1000,
                    od_target_velocity 0]) \<and>
   (\<exists>p'. pp_set_profiler_configuration (\<lambda>x. x) MOTOR_SHAFT_FRAME 100 200 50 None None None
        \<lparr>pp_si_unit_scaling_factor = Some 10, pp_tachometer_ratio_factor = 1,
         pp_gear_ratio_factor = 8, pp_gearbox_ratio = 8,
         pp_acceleration = 0, pp_deceleration = 0, pp_max_velocity = 0,
         pp_target_tolerance = 30, pp_profiler_timeout = 20,
         pp_stabilization_duration = 2, pp_stabilization_time = None,
         pp_target_position = Some 4000, pp_configured_frame = None,
         pp_configured_frame_to_position_control_frame = 0, pp_calls = []\<rparr> = (Inr (), p') \<and>
      pp_target_position p' = Some 4000 \<and>
      pp_calls p' = [od_profile_acceleration 125, od_profile_deceleration 250,
                     od_profile_velocity 62])"
proof -
  let ?v = "\<lparr>v_si_unit_scaling_factor = Some 10, v_tachometer_ratio_factor = 2,
         v_gear_ratio_factor = 1, v_gearbox_ratio = 2,
         v_acceleration = 0, v_deceleration = 0, v_target_tolerance = 0,
         v_profiler_timeout = 20, v_stabilization_duration = 2,
         v_stabilization_time = None, v_target_velocity = 60,
         v_configured_frame = None, v_configured_frame_to_velocity_control_frame = 0,
         v_calls = []\<rparr>"
  let ?p = "\<lparr>pp_si_unit_scaling_factor = Some 10, pp_tachometer_ratio_factor = 1,
         pp_gear_ratio_factor = 8, pp_gearbox_ratio = 8,
         pp_acceleration = 0, pp_deceleration = 0, pp_max_velocity = 0,
         pp_target_tolerance = 30, pp_profiler_timeout = 20,
         pp_stabilization_duration = 2, pp_stabilization_time = None,
         pp_target_position = Some 4000, pp_configured_frame = None,
         pp_configured_frame_to_position_control_frame = 0, pp_calls = []\<rparr>"
  note t = set_profiler_configuration_effects
             [where v = ?v and p = ?p and si = 10 and rnd = "\<lambda>x. x"
                and frame = MOTOR_SHAFT_FRAME and acceleration = 100 and deceleration = 200
                and target_tolerance = 5 and max_velocity = 50 and tolerance = None
                and profiler_timeout = None and stabilization_duration = None
                and torque_slope = 5 and tolerance_tq = 1 and pt = None and sd = None
                and t = TorqueProfileHandler_init]
  have "\<lfloor>125 / 2 :: rat\<rfloor> = 62"
    by (rule floor_unique) simp_all
  then have fl: "py_int (125 / 2) = 62" "py_int 500 = 500" "py_int 1000 = 1000"
           "py_int 125 = 125" "py_int 250 = 250"
    by (simp_all add: py_int_def)
  have pv: "v_si_unit_scaling_factor ?v = Some 10 \<and>
      (v_tachometer_ratio_factor ?v \<noteq> 0 \<or> MOTOR_SHAFT_FRAME = VELOCITY_CONTROL_FRAME)"
    by simp
  have pp: "pp_si_unit_scaling_factor ?p = Some 10 \<and>
      (pp_gear_ratio_factor ?p \<noteq> 0 \<or> MOTOR_SHAFT_FRAME = POSITION_CONTROL_FRAME)"
    by simp
  from t pv obtain v' where
    v: "v_set_profiler_configuration (\<lambda>x. x) MOTOR_SHAFT_FRAME 100 200 5 None None ?v = (Inr (), v')"
    and vf: "v_configured_frame_to_velocity_control_frame v' =
             (case MOTOR_SHAFT_FRAME of
                VELOCITY_CONTROL_FRAME \<Rightarrow> 1
              | MOTOR_SHAFT_FRAME \<Rightarrow> (1 / of_int (v_tachometer_ratio_factor ?v))
              | DRIVE_SHAFT_FRAME \<Rightarrow> (of_int (v_gearbox_ratio ?v) / of_int (v_tachometer_ratio_factor ?v))
              | POSITION_CONTROL_FRAME \<Rightarrow>
                  (of_int (v_gear_ratio_factor ?v) / of_int (v_tachometer_ratio_factor ?v)))"
    and va: "v_acceleration v' = py_mul (\<lambda>x. x) 100 (v_configured_frame_to_velocity_control_frame v')"
    and vd: "v_deceleration v' = py_mul (\<lambda>x. x) 200 (v_configured_frame_to_velocity_control_frame v')"
    and vt: "v_target_tolerance v' = py_mul (\<lambda>x. x) 5 (v_configured_frame_to_velocity_control_frame v')"
    and v0: "v_target_velocity v' = 0"
    and vc: "v_calls v' = v_calls ?v @
             [od_profile_acceleration (py_int (py_mul (\<lambda>x. x) (v_acceleration v') (of_int 10))),
              od_profile_deceleration (py_int (py_mul (\<lambda>x. x) (v_deceleration v') (of_int 10))),
              od_target_velocity 0]"
    by blast
  from vf have vf': "v_configured_frame_to_velocity_control_frame v' = 1 / 2" by simp
  from va vd vt vf' have vs: "v_acceleration v' = 50" "v_deceleration v' = 100"
      "v_target_tolerance v' = 5 / 2"
    by (simp_all add: py_mul_exact)
  from vc vs have vc': "v_calls v' = [od_profile_acceleration 500, od_profile_deceleration 1000,
                    od_target_velocity 0]"
    by (simp add: fl py_mul_exact)
  from t pp obtain p' where
    p: "pp_set_profiler_configuration (\<lambda>x. x) MOTOR_SHAFT_FRAME 100 200 50 None None None ?p = (Inr (), p')"
    and pf: "pp_configured_frame_to_position_control_frame p' =
             (case MOTOR_SHAFT_FRAME of
                POSITION_CONTROL_FRAME \<Rightarrow> 1
              | MOTOR_SHAFT_FRAME \<Rightarrow> (1 / of_int (pp_gear_ratio_factor ?p))
              | DRIVE_SHAFT_FRAME \<Rightarrow> (of_int (pp_gearbox_ratio ?p) / of_int (pp_gear_ratio_factor ?p))
              | VELOCITY_CONTROL_FRAME \<Rightarrow>
                  (of_int (pp_tachometer_ratio_factor ?p) / of_int (pp_gear_ratio_factor ?p)))"
    and pa: "pp_acceleration p' = py_mul (\<lambda>x. x) 100 (pp_configured_frame_to_position_control_frame p')"
    and pd: "pp_deceleration p' = py_mul (\<lambda>x. x) 200 (pp_configured_frame_to_position_control_frame p')"
    and pm: "pp_max_velocity p' = py_mul (\<lambda>x. x) 50 (pp_configured_frame_to_position_control_frame p')"
    and pt: "pp_target_position p' = pp_target_position ?p"
    and pc: "pp_calls p' = pp_calls ?p @
             [od_profile_acceleration (py_int (py_mul (\<lambda>x. x) (pp_acceleration p') (of_int 10))),
              od_profile_deceleration (py_int (py_mul (\<lambda>x. x) (pp_deceleration p') (of_int 10))),
              od_profile_velocity (py_int (py_mul (\<lambda>x. x) (pp_max_velocity p') (of_int 10)))]"
    by blast
  from pf have pf': "pp_configured_frame_to_position_control_frame p' = 1 / 8" by simp
  from pa pd pm pf' have ps: "pp_acceleration p' = 25 / 2" "pp_deceleration p' = 25"
      "pp_max_velocity p' = 25 / 4"
    by (simp_all add: py_mul_exact)
  from pc ps have pc': "pp_calls p' = [od_profile_acceleration 125, od_profile_deceleration 250,
                     od_profile_velocity 62]"
    by (simp add: fl py_mul_exact)
  from pt have pt': "pp_target_position p' = Some 4000" by simp
  from v vs v0 vc' p pt' pc' show ?thesis by blast
qed

section \<open>Properties of the position supervisor's target detection\<close>

text \<open>
  For positions of 32 bits and a tolerance of at least 3 ticks the relative tolerance of
  \<open>math.isclose\<close> never decides: the test is the absolute one.
\<close>

lemma isclose_absolute:
  assumes "\<bar>a\<bar> \<le> 2 ^ 31" "\<bar>b\<bar> \<le> 2 ^ 31" "3 \<le> abs_tol"
  shows "isclose a b abs_tol = Inr (\<bar>b - a\<bar> \<le> abs_tol)"
proof -
  have ra: "\<bar>rel_tol * a\<bar> \<le> abs_tol"
  proof -
    have "\<bar>rel_tol * a\<bar> = rel_tol * \<bar>a\<bar>" by (simp add: rel_tol_def abs_mult)
    also have "\<dots> \<le> rel_tol * 2 ^ 31" using assms(1) by (simp add: rel_tol_def)
    also have "\<dots> \<le> 3" by (simp add: rel_tol_def)
    finally show ?thesis using assms(3) by simp
  qed
  have rb: "\<bar>rel_tol * b\<bar> \<le> abs_tol"
  proof -
    have "\<bar>rel_tol * b\<bar> = rel_tol * \<bar>b\<bar>" by (simp add: rel_tol_def abs_mult)
    also have "\<dots> \<le> rel_tol * 2 ^ 31" using assms(2) by (simp add: rel_tol_def)
    also have "\<dots> \<le> 3" by (simp add: rel_tol_def)
    finally show ?thesis using assms(3) by simp
  qed
  from ra rb assms(3) show ?thesis
    by (auto simp: isclose_def)
qed

lemma is_target_reached_cases:
  assumes "pp_target_position h = Some target" "0 \<le> pp_target_tolerance h"
      and "pp_stabilization_time h = Some st"
  shows "is_target_reached e d t h =
           (if within_tolerance h d e
            then (Inr (st < t), h)
            else (Inr False, h\<lparr>pp_stabilization_time := Some (t + pp_stabilization_duration h)\<rparr>))"
  using assms
  by (auto simp: is_target_reached_def within_tolerance_def isclose_def Let_def)

text \<open>
  The invariant of a poll sequence that starts after the deadline was armed and whose
  clock never runs backwards: only the deadline changes, it never lies before the one
  armed at the start, and it lies at least one stabilization duration after every poll
  that was outside tolerance.
\<close>

lemma after_polls_snoc:
  "after_polls h (ps @ [(t, d, e)]) = snd (is_target_reached e d t (after_polls h ps))"
  by (simp add: after_polls_def)

lemma after_polls_invariant:
  assumes "pp_target_position h = Some target" "0 \<le> pp_target_tolerance h"
      and "pp_stabilization_time h = Some st0"
      and "sorted (map fst ps)"
      and "\<forall>p \<in> set ps. st0 \<le> fst p + pp_stabilization_duration h"
  shows "\<exists>st. after_polls h ps = h\<lparr>pp_stabilization_time := Some st\<rparr> \<and> st0 \<le> st \<and>
           (\<forall>(t, d, e) \<in> set ps. \<not> within_tolerance h d e \<longrightarrow> t + pp_stabilization_duration h \<le> st)"
  using assms(4,5)
proof (induction ps rule: rev_induct)
  case Nil
  from assms(3) have "h = h\<lparr>pp_stabilization_time := Some st0\<rparr>" by simp
  then show ?case by (auto simp: after_polls_def)
next
  case (snoc p ps)
  obtain t d e where p: "p = (t, d, e)" by (cases p)
  from snoc.prems(1) have sorted_ps: "sorted (map fst ps)"
    and earlier: "\<forall>q \<in> set ps. fst q \<le> t"
    by (auto simp: sorted_append p)
  from snoc.prems(2) have after: "\<forall>q \<in> set ps. st0 \<le> fst q + pp_stabilization_duration h"
    and after_p: "st0 \<le> t + pp_stabilization_duration h"
    by (auto simp: p)
  from snoc.IH [OF sorted_ps after] obtain st where
    st: "after_polls h ps = h\<lparr>pp_stabilization_time := Some st\<rparr>" "st0 \<le> st"
    "\<forall>(t', d', e') \<in> set ps. \<not> within_tolerance h d' e' \<longrightarrow> t' + pp_stabilization_duration h \<le> st"
    by blast
  let ?h1 = "h\<lparr>pp_stabilization_time := Some st\<rparr>"
  have wt: "within_tolerance ?h1 d e = within_tolerance h d e"
    by (simp add: within_tolerance_def split: option.splits)
  have step: "is_target_reached e d t ?h1 =
           (if within_tolerance h d e
            then (Inr (st < t), ?h1)
            else (Inr False, h\<lparr>pp_stabilization_time := Some (t + pp_stabilization_duration h)\<rparr>))"
    using is_target_reached_cases [of ?h1 target st e d t] assms(1,2) wt by simp
  show ?case
  proof (cases "within_tolerance h d e")
    case True
    with step st have "after_polls h (ps @ [p]) = ?h1"
      by (simp add: p after_polls_snoc)
    with st True show ?thesis by (auto simp: p)
  next
    case False
    let ?st' = "t + pp_stabilization_duration h"
    from False step st have 1: "after_polls h (ps @ [p]) = h\<lparr>pp_stabilization_time := Some ?st'\<rparr>"
      by (simp add: p after_polls_snoc)
    have 2: "\<forall>(t', d', e') \<in> set (ps @ [p]).
               \<not> within_tolerance h d' e' \<longrightarrow> t' + pp_stabilization_duration h \<le> ?st'"
      using earlier by (auto simp: p)
    from 1 2 after_p show ?thesis by blast
  qed
qed

text \<open>
  The stabilization window. A poll at time \<open>t\<close> answers \<open>True\<close> only when the deadline armed
  at the start has passed, the reading of this poll passes the closeness test, and so
  does the reading of every earlier poll made within one stabilization duration before
  \<open>t\<close>.
\<close>

theorem target_reached_only_after_stable_window:
  assumes "pp_target_position h = Some target" "0 \<le> pp_target_tolerance h"
      and "pp_stabilization_time h = Some st0"
      and "sorted (map fst (ps @ [(t, d, e)]))"
      and "\<forall>p \<in> set ps. st0 \<le> fst p + pp_stabilization_duration h"
      and "fst (is_target_reached e d t (after_polls h ps)) = Inr True"
  shows "st0 < t \<and> within_tolerance h d e \<and>
         (\<forall>(t', d', e') \<in> set ps. t \<le> t' + pp_stabilization_duration h \<longrightarrow> within_tolerance h d' e')"
proof -
  from assms(4) have sorted_ps: "sorted (map fst ps)"
    by (auto simp: sorted_append)
  from after_polls_invariant [OF assms(1,2,3) sorted_ps assms(5)] obtain st where
    st: "after_polls h ps = h\<lparr>pp_stabilization_time := Some st\<rparr>" "st0 \<le> st"
    "\<forall>(t', d', e') \<in> set ps. \<not> within_tolerance h d' e' \<longrightarrow> t' + pp_stabilization_duration h \<le> st"
    by blast
  let ?h1 = "h\<lparr>pp_stabilization_time := Some st\<rparr>"
  have wt: "within_tolerance ?h1 d e = within_tolerance h d e"
    by (simp add: within_tolerance_def split: option.splits)
  have step: "is_target_reached e d t ?h1 =
           (if within_tolerance h d e
            then (Inr (st < t), ?h1)
            else (Inr False, h\<lparr>pp_stabilization_time := Some (t + pp_stabilization_duration h)\<rparr>))"
    using is_target_reached_cases [of ?h1 target st e d t] assms(1,2) wt by simp
  from assms(6) st(1) step have w: "within_tolerance h d e" and lt: "st < t"
    by (auto split: if_splits)
  from st(3) lt have "\<forall>(t', d', e') \<in> set ps.
      t \<le> t' + pp_stabilization_duration h \<longrightarrow> within_tolerance h d' e'"
    by fastforce
  with w lt st(2) show ?thesis by simp
qed

text \<open>
  C6 at a failing input. With \<open>target_tolerance = 0\<close>, a trajectory to 2000000001 started at
  clock 0 and a single poll at clock 3 that reads the demand position 2000000000,
  \<open>is_target_reached\<close> answers \<open>True\<close> although the demand position is 1 tick away from the
  expected position, more than the tolerance: \<open>math.isclose\<close> accepts the reading on its
  default relative tolerance (\<open>1e-09 * 2000000001 > 1\<close>).
\<close>

theorem is_target_reached_relative_tolerance:
  "fst (is_target_reached None 2000000000 3
     (fst (start_trajectory 2000000001 0
        \<lparr>pp_si_unit_scaling_factor = Some 1, pp_tachometer_ratio_factor = 1,
         pp_gear_ratio_factor = 1, pp_gearbox_ratio = 1,
         pp_acceleration = 100, pp_deceleration = 100, pp_max_velocity = 50,
         pp_target_tolerance = 0, pp_profiler_timeout = 20,
         pp_stabilization_duration = 2, pp_stabilization_time = None,
         pp_target_position = None, pp_configured_frame = Some POSITION_CONTROL_FRAME,
         pp_configured_frame_to_position_control_frame = 1, pp_calls = []\<rparr>))) = Inr True \<and>
   \<not> \<bar>2000000000 - 2000000001 :: int\<bar> \<le> 0"
  by (simp add: is_target_reached_def start_trajectory_def isclose_def rel_tol_def Let_def)

theorem target_reached_only_after_stable_window_witness:
  "fst (is_target_reached None 1000 (11 / 2)
     (after_polls
        (fst (start_trajectory 1000 0
          \<lparr>pp_si_unit_scaling_factor = Some 1, pp_tachometer_ratio_factor = 1,
           pp_gear_ratio_factor = 1, pp_gearbox_ratio = 1,
           pp_acceleration = 100, pp_deceleration = 100, pp_max_velocity = 50,
           pp_target_tolerance = 30, pp_profiler_timeout = 20,
           pp_stabilization_duration = 2, pp_stabilization_time = None,
           pp_target_position = None, pp_configured_frame = Some POSITION_CONTROL_FRAME,
           pp_configured_frame_to_position_control_frame = 1, pp_calls = []\<rparr>))
        [(1, 500, None), (2, 990, None), (4, 995, None)])) = Inr True \<and>
   within_tolerance
     (fst (start_trajectory 1000 0
          \<lparr>pp_si_unit_scaling_factor = Some 1, pp_tachometer_ratio_factor = 1,
           pp_gear_ratio_factor = 1, pp_gearbox_ratio = 1,
           pp_acceleration = 100, pp_deceleration = 100, pp_max_velocity = 50,
           pp_target_tolerance = 30, pp_profiler_timeout = 20,
           pp_stabilization_duration = 2, pp_stabilization_time = None,
           pp_target_position = None, pp_configured_frame = Some POSITION_CONTROL_FRAME,
           pp_configured_frame_to_position_control_frame = 1, pp_calls = []\<rparr>)) 995 None"
proof -
  let ?h = "fst (start_trajectory 1000 0
          \<lparr>pp_si_unit_scaling_factor = Some 1, pp_tachometer_ratio_factor = 1,
           pp_gear_ratio_factor = 1, pp_gearbox_ratio = 1,
           pp_acceleration = 100, pp_deceleration = 100, pp_max_velocity = 50,
           pp_target_tolerance = 30, pp_profiler_timeout = 20,
           pp_stabilization_duration = 2, pp_stabilization_time = None,
           pp_target_position = None, pp_configured_frame = Some POSITION_CONTROL_FRAME,
           pp_configured_frame_to_position_control_frame = 1, pp_calls = []\<rparr>)"
  let ?ps = "[(1, 500, None), (2, 990, None), (4, 995, None)] :: (rat \<times> int \<times> int option) list"
  have a1: "pp_target_position ?h = Some 1000"
    and a2: "0 \<le> pp_target_tolerance ?h"
    and a3: "pp_stabilization_time ?h = Some (201 / 100)"
    and d: "pp_stabilization_duration ?h = 2"
    by (simp_all add: start_trajectory_def Let_def)
  have a4: "sorted (map fst (?ps @ [(11 / 2, 1000, None)]))" by simp
  have a5: "\<forall>p \<in> set ?ps. 201 / 100 \<le> fst p + pp_stabilization_duration ?h"
    by (simp add: d)
  have a6: "fst (is_target_reached None 1000 (11 / 2) (after_polls ?h ?ps)) = Inr True"
    by (simp add: after_polls_def is_target_reached_def start_trajectory_def isclose_def
                  rel_tol_def Let_def)
  from target_reached_only_after_stable_window [OF a1 a2 a3 a4 a5 a6]
  have "within_tolerance ?h 995 None" by (simp add: d)
  with a6 show ?thesis by blast
qed


end
